theory Spec2Isabelle
  imports Main
begin

section \<open>JavaScript values and string helpers\<close>

text \<open>
  A JavaScript number that the handlers obtain from \<^verbatim>\<open>parseInt\<close>: either
  \<^verbatim>\<open>NaN\<close> or an integer. The integers are exact; JavaScript's doubles agree with
  them below \<open>2^53\<close>.

  A string is a list of characters, and a character is a UTF-16 code unit below 256
  (U+0000 to U+00FF, the Latin-1 range): \<open>CHR 0xA0\<close> is the no-break space,
  \<open>CHR 0xC9\<close> is the capital E with acute. On these strings the functions below
  are JavaScript's: the white space of \<^verbatim>\<open>trim\<close>, \<^verbatim>\<open>parseInt\<close> and the regular
  expression class \<^verbatim>\<open>\s\<close> is TAB, LF, VT, FF, CR, SP and NBSP, and
  \<^verbatim>\<open>toLowerCase\<close> maps A to Z and the capitals U+00C0 to U+00DE other than the
  multiplication sign U+00D7. Strings with a code unit of 256 or more are not values
  of this type.
\<close>

datatype jsnum = NaN | Num int

fun jsMax :: "jsnum \<Rightarrow> jsnum \<Rightarrow> jsnum" where
  "jsMax (Num a) (Num b) = Num (max a b)"
| "jsMax _ _ = NaN"

fun jsMin :: "jsnum \<Rightarrow> jsnum \<Rightarrow> jsnum" where
  "jsMin (Num a) (Num b) = Num (min a b)"
| "jsMin _ _ = NaN"

fun jsSub :: "jsnum \<Rightarrow> jsnum \<Rightarrow> jsnum" where
  "jsSub (Num a) (Num b) = Num (a - b)"
| "jsSub _ _ = NaN"

fun jsMul :: "jsnum \<Rightarrow> jsnum \<Rightarrow> jsnum" where
  "jsMul (Num a) (Num b) = Num (a * b)"
| "jsMul _ _ = NaN"

definition isWhiteSpace :: "char \<Rightarrow> bool" where
  "isWhiteSpace c \<longleftrightarrow>
     (let n = (of_char c :: nat) in (9 \<le> n \<and> n \<le> 13) \<or> n = 32 \<or> n = 160)"

definition trim :: "string \<Rightarrow> string" where
  "trim s = rev (dropWhile isWhiteSpace (rev (dropWhile isWhiteSpace s)))"

definition lowerChar :: "char \<Rightarrow> char" where
  "lowerChar c =
     (let n = (of_char c :: nat) in
      if (65 \<le> n \<and> n \<le> 90) \<or> (192 \<le> n \<and> n \<le> 222 \<and> n \<noteq> 215)
      then char_of (n + 32) else c)"

definition toLowerCase :: "string \<Rightarrow> string" where
  "toLowerCase s = map lowerChar s"

text \<open>\<^verbatim>\<open>s.split(sep)\<close> for a one-character separator: the empty string gives one empty piece.\<close>

fun split :: "char \<Rightarrow> string \<Rightarrow> string list" where
  "split sep [] = [[]]"
| "split sep (c # cs) =
     (if c = sep then [] # split sep cs
      else (case split sep cs of [] \<Rightarrow> [[c]] | p # ps \<Rightarrow> (c # p) # ps))"

definition startsWith :: "string \<Rightarrow> string \<Rightarrow> bool" where
  "startsWith s p \<longleftrightarrow> take (length p) s = p"

definition digitValue :: "char \<Rightarrow> nat option" where
  "digitValue c =
     (let n = (of_char c :: nat) in
      if 48 \<le> n \<and> n \<le> 57 then Some (n - 48)
      else if 97 \<le> n \<and> n \<le> 122 then Some (n - 87)
      else if 65 \<le> n \<and> n \<le> 90 then Some (n - 55)
      else None)"

definition isRadixDigit :: "nat \<Rightarrow> char \<Rightarrow> bool" where
  "isRadixDigit R c = (case digitValue c of None \<Rightarrow> False | Some d \<Rightarrow> d < R)"

definition digitsToInt :: "nat \<Rightarrow> string \<Rightarrow> int" where
  "digitsToInt R ds =
     foldl (\<lambda>acc c. case digitValue c of None \<Rightarrow> acc | Some d \<Rightarrow> acc * int R + int d) 0 ds"

text \<open>
  \<^verbatim>\<open>parseInt(str)\<close> with no radix: leading white space is skipped, a sign is read, a
  \<^verbatim>\<open>0x\<close> prefix selects radix 16, the longest run of digits is converted and the
  rest of the string is ignored; with no digit the result is \<^verbatim>\<open>NaN\<close>.
\<close>

definition parseInt :: "string \<Rightarrow> jsnum" where
  "parseInt str =
     (let s0 = dropWhile isWhiteSpace str;
          neg = (case s0 of [] \<Rightarrow> False | c # _ \<Rightarrow> c = CHR ''-'');
          s1 = (case s0 of [] \<Rightarrow> [] | c # cs \<Rightarrow> if c = CHR ''+'' \<or> c = CHR ''-'' then cs else s0);
          hex = (take 2 s1 = ''0x'' \<or> take 2 s1 = ''0X'');
          R = (if hex then 16 else 10);
          s2 = (if hex then drop 2 s1 else s1);
          z = takeWhile (isRadixDigit R) s2
      in if z = [] then NaN else Num ((if neg then - 1 else 1) * digitsToInt R z))"

text \<open>\<^verbatim>\<open>String(n)\<close> for an integer.\<close>

definition digitChar :: "nat \<Rightarrow> char" where
  "digitChar d = ''0123456789'' ! d"

fun showNat :: "nat \<Rightarrow> string" where
  "showNat n = (if n < 10 then [digitChar n] else showNat (n div 10) @ [digitChar (n mod 10)])"

definition showInt :: "int \<Rightarrow> string" where
  "showInt i = (if i < 0 then CHR ''-'' # showNat (nat (- i)) else showNat (nat i))"

text \<open>\<^verbatim>\<open>String(x || d)\<close> for an optional query string: absent and empty are falsy.\<close>

definition orDefault :: "string option \<Rightarrow> string \<Rightarrow> string" where
  "orDefault x d = (case x of None \<Rightarrow> d | Some s \<Rightarrow> if s = [] then d else s)"

section \<open>Helpers (utils/helpers)\<close>

record pagination =
  page :: jsnum
  limit :: jsnum
  offset :: jsnum

definition parsePagination :: "string option \<Rightarrow> string option \<Rightarrow> pagination" where
  "parsePagination pageArg limitArg =
     (let parsedPage = parseInt (orDefault pageArg (showInt 1));
          parsedLimit = parseInt (orDefault limitArg (showInt 20))
      in \<lparr> page = jsMax (Num 1) parsedPage,
           limit = jsMin (Num 100) (jsMax (Num 1) parsedLimit),
           offset = jsMul (jsSub (jsMax (Num 1) parsedPage) (Num 1))
                      (jsMin (Num 100) (jsMax (Num 1) parsedLimit)) \<rparr>)"

definition isValidPassword :: "string \<Rightarrow> bool" where
  "isValidPassword pw \<longleftrightarrow> length pw \<ge> 6"

text \<open>
  \<^verbatim>\<open>/^[^\s@]+@[^\s@]+\.[^\s@]+$/\<close>: a non-empty local part, one \<^verbatim>\<open>@\<close>, and a
  rest without white space or \<^verbatim>\<open>@\<close> that has a dot strictly inside it.
\<close>

definition emailChar :: "char \<Rightarrow> bool" where
  "emailChar c \<longleftrightarrow> c \<noteq> CHR ''@'' \<and> \<not> isWhiteSpace c"

definition isValidEmail :: "string \<Rightarrow> bool" where
  "isValidEmail e =
     (let a = takeWhile emailChar e; r = dropWhile emailChar e
      in a \<noteq> [] \<and>
         (case r of [] \<Rightarrow> False
          | c # d \<Rightarrow> c = CHR ''@'' \<and> list_all emailChar d \<and> CHR ''.'' \<in> set (butlast (tl d))))"


section \<open>Errors (utils/errors) and the error boundary (middlewares/error.middleware)\<close>

datatype error =
    ValidationError string
  | AuthenticationError string
  | AuthorizationError string
  | NotFoundError string
  | ConflictError string
  | MaxTagsError string
  | RateLimitError string
  | PrismaClientKnownRequestError string
  | PrismaClientValidationError
  | DatabaseFailure
  | PlainError string

text \<open>
  \<^verbatim>\<open>PrismaClientKnownRequestError\<close> carries the constraint code (P2002 unique index,
  P2003 foreign key, P2025 record not found). \<^verbatim>\<open>PrismaClientValidationError\<close> is
  the client's rejection of an argument that is not an integer (\<^verbatim>\<open>NaN\<close>).
  \<^verbatim>\<open>DatabaseFailure\<close> is a statement the database did not execute (connection
  lost, timeout). \<^verbatim>\<open>PlainError\<close> is \<^verbatim>\<open>throw new Error(msg)\<close>.
\<close>

fun statusCode :: "error \<Rightarrow> nat" where
  "statusCode (ValidationError _) = 400"
| "statusCode (AuthenticationError _) = 401"
| "statusCode (AuthorizationError _) = 403"
| "statusCode (NotFoundError _) = 404"
| "statusCode (ConflictError _) = 409"
| "statusCode (MaxTagsError _) = 400"
| "statusCode (RateLimitError _) = 429"
| "statusCode (PrismaClientKnownRequestError _) = 400"
| "statusCode PrismaClientValidationError = 500"
| "statusCode DatabaseFailure = 500"
| "statusCode (PlainError _) = 500"

section \<open>The persistent store (prisma/migrations)\<close>

text \<open>
  One record per table, one list of rows per table, in insertion order. The columns
  \<^verbatim>\<open>createdAt\<close> and \<^verbatim>\<open>updatedAt\<close> are left out: no handler below reads
  them except to order a listing, and insertion order stands for that. Counters are
  the database's integers, incremented and decremented by the database.
\<close>

datatype json = JNull | JNum int | JStr string | JBool bool | JArr "json list"

type_synonym jsobject = "(string \<times> json) list"

datatype mediaType = image | video

datatype reactionType = like | love | insightful | celebrate

datatype notificationType =
  jot_reaction | jot_comment | entry_reaction | entry_comment | follow | mention | system

record user =
  user_id :: int
  firstName :: string
  lastName :: string
  email :: string
  password :: string
  profilePicture :: "string option"
  profilePicturePublicId :: "string option"
  bio :: "string option"
  userTags :: "string list option"
  followersCount :: int
  followingCount :: int

record followRow =
  follow_id :: int
  followerId :: int
  followingId :: int

record jot =
  jot_id :: int
  jot_userId :: int
  jot_content :: string
  jot_mediaUrl :: "string option"
  jot_mediaPublicId :: "string option"
  jot_mediaType :: "mediaType option"
  reactionsCount :: int
  commentsCount :: int

record jotComment =
  comment_id :: int
  comment_jotId :: int
  comment_userId :: int
  comment_content :: string

record jotReaction =
  reaction_id :: int
  reaction_jotId :: int
  reaction_userId :: int
  reaction_type :: reactionType

record story =
  story_id :: int
  story_userId :: int
  story_mediaUrl :: string
  story_mediaPublicId :: "string option"
  story_mediaType :: mediaType
  caption :: "string option"
  viewsCount :: int
  expiresAt :: int

record storyView =
  view_id :: int
  view_storyId :: int
  viewerId :: int

record diary =
  diary_id :: int
  diary_userId :: int
  diary_name :: string
  diary_description :: "string option"
  isPublic :: bool

record diaryEntry =
  entry_id :: int
  entry_title :: string
  entry_content :: string
  coverImage :: "string option"
  entry_diaryId :: int
  entry_userId :: int
  favorite :: bool

record tag =
  tag_id :: int
  tag_name :: string
  tag_userId :: int

record diaryEntryTag =
  link_id :: int
  diaryEntryId :: int
  link_tagId :: int

record notification =
  notif_id :: int
  notif_userId :: int
  senderId :: "int option"
  notif_type :: notificationType
  notif_title :: string
  notif_body :: string
  notif_data :: "(string \<times> int) list"
  notif_imageUrl :: "string option"
  notif_link :: string

record store =
  users :: "user list"
  follows :: "followRow list"
  jots :: "jot list"
  jotComments :: "jotComment list"
  jotReactions :: "jotReaction list"
  stories :: "story list"
  storyViews :: "storyView list"
  diaries :: "diary list"
  diaryEntries :: "diaryEntry list"
  tags :: "tag list"
  diaryEntryTags :: "diaryEntryTag list"
  notifications :: "notification list"

text \<open>A serial primary key: an id above every id of the table.\<close>

definition freshId :: "int list \<Rightarrow> int" where
  "freshId ids = foldr max ids 0 + 1"

text \<open>
  Every awaited write of a handler is numbered in program order; the fault plan says
  which of them the database fails to execute. \<open>noFaults\<close> is the database that
  executes every statement. \<^verbatim>\<open>prisma.$transaction([...])\<close> is one write: its
  statements run in order on the store, and when one is rejected the caller keeps the
  store it started from.
\<close>

type_synonym faults = "nat \<Rightarrow> bool"

type_synonym statement = "store \<Rightarrow> error + store"

definition noFaults :: faults where
  "noFaults = (\<lambda>k. False)"

definition dbWrite :: "faults \<Rightarrow> nat \<Rightarrow> statement \<Rightarrow> statement" where
  "dbWrite flt k stmt s = (if flt k then Inl DatabaseFailure else stmt s)"

fun transaction :: "statement list \<Rightarrow> statement" where
  "transaction [] s = Inr s"
| "transaction (q # qs) s = (case q s of Inl e \<Rightarrow> Inl e | Inr s' \<Rightarrow> transaction qs s')"

subsection \<open>Users\<close>

definition userExists :: "store \<Rightarrow> int \<Rightarrow> bool" where
  "userExists s i \<longleftrightarrow> i \<in> set (map user_id (users s))"

definition user_findUnique :: "store \<Rightarrow> int \<Rightarrow> user option" where
  "user_findUnique s i = find (\<lambda>u. user_id u = i) (users s)"

definition user_findByEmail :: "store \<Rightarrow> string \<Rightarrow> user option" where
  "user_findByEmail s e = find (\<lambda>u. email u = e) (users s)"

definition user_update :: "int \<Rightarrow> (user \<Rightarrow> user) \<Rightarrow> statement" where
  "user_update i f s =
     (if userExists s i
      then Inr (s\<lparr>users := map (\<lambda>u. if user_id u = i then f u else u) (users s)\<rparr>)
      else Inl (PrismaClientKnownRequestError ''P2025''))"

definition user_row :: "store \<Rightarrow> user \<Rightarrow> user" where
  "user_row s u = u\<lparr>user_id := freshId (map user_id (users s))\<rparr>"

definition user_create :: "user \<Rightarrow> statement" where
  "user_create u s =
     (if email u \<in> set (map email (users s)) then Inl (PrismaClientKnownRequestError ''P2002'')
      else Inr (s\<lparr>users := users s @ [user_row s u]\<rparr>))"

subsection \<open>Follows\<close>

definition follow_findFirst :: "store \<Rightarrow> int \<Rightarrow> int \<Rightarrow> followRow option" where
  "follow_findFirst s a b = find (\<lambda>f. followerId f = a \<and> followingId f = b) (follows s)"

definition follow_create :: "int \<Rightarrow> int \<Rightarrow> statement" where
  "follow_create a b s =
     (if \<not> userExists s a \<or> \<not> userExists s b then Inl (PrismaClientKnownRequestError ''P2003'')
      else if follow_findFirst s a b \<noteq> None then Inl (PrismaClientKnownRequestError ''P2002'')
      else Inr (s\<lparr>follows := follows s @
             [\<lparr>follow_id = freshId (map follow_id (follows s)), followerId = a, followingId = b\<rparr>]\<rparr>))"

definition follow_delete :: "int \<Rightarrow> statement" where
  "follow_delete i s =
     (if i \<in> set (map follow_id (follows s))
      then Inr (s\<lparr>follows := filter (\<lambda>f. follow_id f \<noteq> i) (follows s)\<rparr>)
      else Inl (PrismaClientKnownRequestError ''P2025''))"

subsection \<open>Jots, reactions and comments\<close>

definition jotExists :: "store \<Rightarrow> int \<Rightarrow> bool" where
  "jotExists s i \<longleftrightarrow> i \<in> set (map jot_id (jots s))"

definition jot_findUnique :: "store \<Rightarrow> int \<Rightarrow> jot option" where
  "jot_findUnique s i = find (\<lambda>j. jot_id j = i) (jots s)"

definition jot_update :: "int \<Rightarrow> (jot \<Rightarrow> jot) \<Rightarrow> statement" where
  "jot_update i f s =
     (if jotExists s i
      then Inr (s\<lparr>jots := map (\<lambda>j. if jot_id j = i then f j else j) (jots s)\<rparr>)
      else Inl (PrismaClientKnownRequestError ''P2025''))"

definition jot_row :: "store \<Rightarrow> jot \<Rightarrow> jot" where
  "jot_row s j = j\<lparr>jot_id := freshId (map jot_id (jots s))\<rparr>"

definition jot_create :: "jot \<Rightarrow> statement" where
  "jot_create j s =
     (if \<not> userExists s (jot_userId j) then Inl (PrismaClientKnownRequestError ''P2003'')
      else Inr (s\<lparr>jots := jots s @ [jot_row s j]\<rparr>))"

definition jotReaction_findFirst :: "store \<Rightarrow> int \<Rightarrow> int \<Rightarrow> jotReaction option" where
  "jotReaction_findFirst s jotId userId =
     find (\<lambda>r. reaction_jotId r = jotId \<and> reaction_userId r = userId) (jotReactions s)"

definition jotReaction_create :: "int \<Rightarrow> int \<Rightarrow> reactionType \<Rightarrow> statement" where
  "jotReaction_create jotId userId rt s =
     (if \<not> jotExists s jotId \<or> \<not> userExists s userId
      then Inl (PrismaClientKnownRequestError ''P2003'')
      else if jotReaction_findFirst s jotId userId \<noteq> None
      then Inl (PrismaClientKnownRequestError ''P2002'')
      else Inr (s\<lparr>jotReactions := jotReactions s @
             [\<lparr>reaction_id = freshId (map reaction_id (jotReactions s)), reaction_jotId = jotId,
               reaction_userId = userId, reaction_type = rt\<rparr>]\<rparr>))"

definition jotReaction_delete :: "int \<Rightarrow> statement" where
  "jotReaction_delete i s =
     (if i \<in> set (map reaction_id (jotReactions s))
      then Inr (s\<lparr>jotReactions := filter (\<lambda>r. reaction_id r \<noteq> i) (jotReactions s)\<rparr>)
      else Inl (PrismaClientKnownRequestError ''P2025''))"

definition jotComment_findUnique :: "store \<Rightarrow> int \<Rightarrow> jotComment option" where
  "jotComment_findUnique s i = find (\<lambda>c. comment_id c = i) (jotComments s)"

definition jotComment_row :: "store \<Rightarrow> int \<Rightarrow> int \<Rightarrow> string \<Rightarrow> jotComment" where
  "jotComment_row s jotId userId txt =
     \<lparr>comment_id = freshId (map comment_id (jotComments s)), comment_jotId = jotId,
      comment_userId = userId, comment_content = txt\<rparr>"

definition jotComment_create :: "int \<Rightarrow> int \<Rightarrow> string \<Rightarrow> statement" where
  "jotComment_create jotId userId txt s =
     (if \<not> jotExists s jotId \<or> \<not> userExists s userId
      then Inl (PrismaClientKnownRequestError ''P2003'')
      else Inr (s\<lparr>jotComments := jotComments s @ [jotComment_row s jotId userId txt]\<rparr>))"

definition jotComment_delete :: "int \<Rightarrow> statement" where
  "jotComment_delete i s =
     (if i \<in> set (map comment_id (jotComments s))
      then Inr (s\<lparr>jotComments := filter (\<lambda>c. comment_id c \<noteq> i) (jotComments s)\<rparr>)
      else Inl (PrismaClientKnownRequestError ''P2025''))"

subsection \<open>Stories and story views\<close>

definition storyExists :: "store \<Rightarrow> int \<Rightarrow> bool" where
  "storyExists s i \<longleftrightarrow> i \<in> set (map story_id (stories s))"

definition story_findUnique :: "store \<Rightarrow> int \<Rightarrow> story option" where
  "story_findUnique s i = find (\<lambda>t. story_id t = i) (stories s)"

definition story_update :: "int \<Rightarrow> (story \<Rightarrow> story) \<Rightarrow> statement" where
  "story_update i f s =
     (if storyExists s i
      then Inr (s\<lparr>stories := map (\<lambda>t. if story_id t = i then f t else t) (stories s)\<rparr>)
      else Inl (PrismaClientKnownRequestError ''P2025''))"

definition story_row :: "store \<Rightarrow> story \<Rightarrow> story" where
  "story_row s t = t\<lparr>story_id := freshId (map story_id (stories s))\<rparr>"

definition story_create :: "story \<Rightarrow> statement" where
  "story_create t s =
     (if \<not> userExists s (story_userId t) then Inl (PrismaClientKnownRequestError ''P2003'')
      else Inr (s\<lparr>stories := stories s @ [story_row s t]\<rparr>))"

definition storyView_findUnique :: "store \<Rightarrow> int \<Rightarrow> int \<Rightarrow> storyView option" where
  "storyView_findUnique s storyId viewer =
     find (\<lambda>v. view_storyId v = storyId \<and> viewerId v = viewer) (storyViews s)"

definition storyView_create :: "int \<Rightarrow> int \<Rightarrow> statement" where
  "storyView_create storyId viewer s =
     (if \<not> storyExists s storyId \<or> \<not> userExists s viewer
      then Inl (PrismaClientKnownRequestError ''P2003'')
      else if storyView_findUnique s storyId viewer \<noteq> None
      then Inl (PrismaClientKnownRequestError ''P2002'')
      else Inr (s\<lparr>storyViews := storyViews s @
             [\<lparr>view_id = freshId (map view_id (storyViews s)), view_storyId = storyId,
               viewerId = viewer\<rparr>]\<rparr>))"

subsection \<open>Diaries, entries and tags\<close>

definition diary_findUnique :: "store \<Rightarrow> int \<Rightarrow> diary option" where
  "diary_findUnique s i = find (\<lambda>d. diary_id d = i) (diaries s)"

definition diaryEntry_row :: "store \<Rightarrow> diaryEntry \<Rightarrow> diaryEntry" where
  "diaryEntry_row s e = e\<lparr>entry_id := freshId (map entry_id (diaryEntries s))\<rparr>"

definition diaryEntry_create :: "diaryEntry \<Rightarrow> statement" where
  "diaryEntry_create e s =
     (if entry_diaryId e \<notin> set (map diary_id (diaries s)) \<or> \<not> userExists s (entry_userId e)
      then Inl (PrismaClientKnownRequestError ''P2003'')
      else Inr (s\<lparr>diaryEntries := diaryEntries s @ [diaryEntry_row s e]\<rparr>))"

definition tag_findFirst :: "store \<Rightarrow> string \<Rightarrow> int \<Rightarrow> tag option" where
  "tag_findFirst s nm userId = find (\<lambda>t. tag_name t = nm \<and> tag_userId t = userId) (tags s)"

definition tag_row :: "store \<Rightarrow> string \<Rightarrow> int \<Rightarrow> tag" where
  "tag_row s nm userId = \<lparr>tag_id = freshId (map tag_id (tags s)), tag_name = nm, tag_userId = userId\<rparr>"

definition tag_create :: "string \<Rightarrow> int \<Rightarrow> statement" where
  "tag_create nm userId s =
     (if \<not> userExists s userId then Inl (PrismaClientKnownRequestError ''P2003'')
      else Inr (s\<lparr>tags := tags s @ [tag_row s nm userId]\<rparr>))"

definition diaryEntryTag_create :: "int \<Rightarrow> int \<Rightarrow> statement" where
  "diaryEntryTag_create entryId tagId s =
     (if entryId \<notin> set (map entry_id (diaryEntries s)) \<or> tagId \<notin> set (map tag_id (tags s))
      then Inl (PrismaClientKnownRequestError ''P2003'')
      else if (entryId, tagId) \<in> set (map (\<lambda>l. (diaryEntryId l, link_tagId l)) (diaryEntryTags s))
      then Inl (PrismaClientKnownRequestError ''P2002'')
      else Inr (s\<lparr>diaryEntryTags := diaryEntryTags s @
             [\<lparr>link_id = freshId (map link_id (diaryEntryTags s)), diaryEntryId = entryId,
               link_tagId = tagId\<rparr>]\<rparr>))"

text \<open>The tags of an entry as the responses show them: \<^verbatim>\<open>{id, name}\<close> per join row.\<close>

definition entryTags :: "store \<Rightarrow> int \<Rightarrow> (int \<times> string) list" where
  "entryTags s entryId =
     concat (map (\<lambda>l. map (\<lambda>t. (tag_id t, tag_name t)) (filter (\<lambda>t. tag_id t = link_tagId l) (tags s)))
               (filter (\<lambda>l. diaryEntryId l = entryId) (diaryEntryTags s)))"

text \<open>
  \<^verbatim>\<open>findMany({take, skip})\<close> on rows already filtered and ordered. The Prisma
  client is taken to reject a \<^verbatim>\<open>take\<close> or \<^verbatim>\<open>skip\<close> that is \<^verbatim>\<open>NaN\<close>, as
  it rejects a \<^verbatim>\<open>NaN\<close> id.
\<close>

definition findManyPaged :: "jsnum \<Rightarrow> jsnum \<Rightarrow> 'a list \<Rightarrow> error + 'a list" where
  "findManyPaged tk sk rows =
     (case (tk, sk) of
        (Num l, Num k) \<Rightarrow> Inr (take (nat l) (drop (nat k) rows))
      | _ \<Rightarrow> Inl PrismaClientValidationError)"

subsection \<open>Notifications\<close>

definition notification_create :: "notification \<Rightarrow> statement" where
  "notification_create n s =
     (if \<not> userExists s (notif_userId n) \<or>
         (case senderId n of None \<Rightarrow> False | Some a \<Rightarrow> \<not> userExists s a)
      then Inl (PrismaClientKnownRequestError ''P2003'')
      else Inr (s\<lparr>notifications := notifications s @
             [n\<lparr>notif_id := freshId (map notif_id (notifications s))\<rparr>]\<rparr>))"

section \<open>Replies\<close>

datatype payload =
    NoData
  | IsFollowing bool
  | Reacted bool "string option"
  | UserData jsobject
  | AuthData jsobject string
  | JotData jot
  | JotsData "(jot \<times> jotReaction option) list" bool
  | CommentData jotComment
  | StoryData story
  | StoriesData "(story \<times> user option \<times> bool) list"
  | DiaryData diary "user option"
  | EntryData diaryEntry "(int \<times> string) list"
  | EntriesData "(diaryEntry \<times> (int \<times> string) list) list" bool

record reply =
  status :: nat
  message :: "string option"
  payload :: payload

type_synonym outcome = "(error + reply) \<times> store"

section \<open>User controller: follow and unfollow\<close>

text \<open>
  A handler takes the caller's id (from the bearer token), the route parameter as the
  string it is, and the store; it returns the error thrown or the reply, and the
  store it leaves. Where a handler passes \<^verbatim>\<open>parseInt\<close>'s result to Prisma
  without an \<^verbatim>\<open>isNaN\<close> check, a \<^verbatim>\<open>NaN\<close> id ends the request with the
  client's validation error, the store untouched.
\<close>

definition followNotification :: "int \<Rightarrow> user \<Rightarrow> int \<Rightarrow> notification" where
  "followNotification userIdToFollow currentUser currentUserId =
     \<lparr> notif_id = 0, notif_userId = userIdToFollow, senderId = Some currentUserId,
       notif_type = follow, notif_title = ''New Follower'',
       notif_body = firstName currentUser @ '' '' @ lastName currentUser @ '' started following you'',
       notif_data = [(''followerId'', currentUserId)],
       notif_imageUrl = profilePicture currentUser,
       notif_link = ''/profile/'' @ showInt currentUserId \<rparr>"

text \<open>The two \<^verbatim>\<open>prisma.$transaction([...])\<close> calls of the follow handlers.\<close>

definition followTransaction :: "int \<Rightarrow> int \<Rightarrow> statement" where
  "followTransaction currentUserId userIdToFollow =
     transaction
       [follow_create currentUserId userIdToFollow,
        user_update currentUserId (\<lambda>u. u\<lparr>followingCount := followingCount u + 1\<rparr>),
        user_update userIdToFollow (\<lambda>u. u\<lparr>followersCount := followersCount u + 1\<rparr>)]"

definition unfollowTransaction :: "int \<Rightarrow> int \<Rightarrow> int \<Rightarrow> statement" where
  "unfollowTransaction followRecordId currentUserId userIdToUnfollow =
     transaction
       [follow_delete followRecordId,
        user_update currentUserId (\<lambda>u. u\<lparr>followingCount := followingCount u - 1\<rparr>),
        user_update userIdToUnfollow (\<lambda>u. u\<lparr>followersCount := followersCount u - 1\<rparr>)]"

definition followUser :: "faults \<Rightarrow> int \<Rightarrow> string \<Rightarrow> store \<Rightarrow> outcome" where
  "followUser flt currentUserId idParam s =
     (case parseInt idParam of
        NaN \<Rightarrow> (Inl PrismaClientValidationError, s)
      | Num userIdToFollow \<Rightarrow>
          if currentUserId = userIdToFollow
          then (Inl (ValidationError ''You cannot follow yourself''), s)
          else (case user_findUnique s userIdToFollow of
            None \<Rightarrow> (Inl (NotFoundError ''User not found''), s)
          | Some userToFollow \<Rightarrow>
             (case follow_findFirst s currentUserId userIdToFollow of
                Some existingFollow \<Rightarrow> (Inl (ValidationError ''Already following this user''), s)
              | None \<Rightarrow>
                 (case dbWrite flt 0 (followTransaction currentUserId userIdToFollow) s of
                    Inl e \<Rightarrow> (Inl e, s)
                  | Inr s1 \<Rightarrow>
                     (case user_findUnique s1 currentUserId of
                        None \<Rightarrow> (Inl (PlainError ''TypeError''), s1)
                      | Some currentUser \<Rightarrow>
                         (case dbWrite flt 1 (notification_create
                                 (followNotification userIdToFollow currentUser currentUserId)) s1 of
                            Inl e \<Rightarrow> (Inl e, s1)
                          | Inr s2 \<Rightarrow>
                             (Inr \<lparr> status = 200, message = Some ''User followed successfully'',
                                    payload = IsFollowing True \<rparr>, s2)))))))"

definition unfollowUser :: "faults \<Rightarrow> int \<Rightarrow> string \<Rightarrow> store \<Rightarrow> outcome" where
  "unfollowUser flt currentUserId idParam s =
     (case parseInt idParam of
        NaN \<Rightarrow> (Inl PrismaClientValidationError, s)
      | Num userIdToUnfollow \<Rightarrow>
         (case follow_findFirst s currentUserId userIdToUnfollow of
            None \<Rightarrow> (Inl (ValidationError ''You are not following this user''), s)
          | Some followRecord \<Rightarrow>
             (case dbWrite flt 0
                     (unfollowTransaction (follow_id followRecord) currentUserId userIdToUnfollow) s of
                Inl e \<Rightarrow> (Inl e, s)
              | Inr s1 \<Rightarrow>
                 (Inr \<lparr> status = 200, message = Some ''User unfollowed successfully'',
                        payload = IsFollowing False \<rparr>, s1))))"

text \<open>
  The denormalised follow counters agree with the Follows table, and the table's
  primary key holds.
\<close>

definition followersOf :: "store \<Rightarrow> int \<Rightarrow> int" where
  "followersOf s i = int (length (filter (\<lambda>f. followingId f = i) (follows s)))"

definition followingOf :: "store \<Rightarrow> int \<Rightarrow> int" where
  "followingOf s i = int (length (filter (\<lambda>f. followerId f = i) (follows s)))"

definition followCountersConsistent :: "store \<Rightarrow> bool" where
  "followCountersConsistent s \<longleftrightarrow>
     distinct (map follow_id (follows s)) \<and>
     list_all (\<lambda>u. followersCount u = followersOf s (user_id u) \<and>
                    followingCount u = followingOf s (user_id u)) (users s)"

datatype followOp = Follow int string | Unfollow int string

fun runFollowOp :: "faults \<Rightarrow> followOp \<Rightarrow> store \<Rightarrow> outcome" where
  "runFollowOp flt (Follow caller idParam) s = followUser flt caller idParam s"
| "runFollowOp flt (Unfollow caller idParam) s = unfollowUser flt caller idParam s"

text \<open>A sequence of follow and unfollow requests, each of which must succeed.\<close>

fun runFollowOps :: "(faults \<times> followOp) list \<Rightarrow> store \<Rightarrow> store option" where
  "runFollowOps [] s = Some s"
| "runFollowOps ((flt, x) # xs) s =
     (case runFollowOp flt x s of
        (Inl e, s') \<Rightarrow> None
      | (Inr r, s') \<Rightarrow> runFollowOps xs s')"

section \<open>Jot controller: reactions and comments\<close>

definition validReactions :: "string list" where
  "validReactions = [''like'', ''love'', ''insightful'', ''celebrate'']"

definition reactionOfString :: "string \<Rightarrow> reactionType" where
  "reactionOfString t =
     (if t = ''love'' then love else if t = ''insightful'' then insightful
      else if t = ''celebrate'' then celebrate else like)"

definition removeReactionTransaction :: "int \<Rightarrow> int \<Rightarrow> statement" where
  "removeReactionTransaction existingReactionId jotId =
     transaction
       [jotReaction_delete existingReactionId,
        jot_update jotId (\<lambda>j. j\<lparr>reactionsCount := reactionsCount j - 1\<rparr>)]"

definition addReactionTransaction :: "int \<Rightarrow> int \<Rightarrow> reactionType \<Rightarrow> statement" where
  "addReactionTransaction jotId userId rt =
     transaction
       [jotReaction_create jotId userId rt,
        jot_update jotId (\<lambda>j. j\<lparr>reactionsCount := reactionsCount j + 1\<rparr>)]"

definition reactionNotification :: "jot \<Rightarrow> user \<Rightarrow> int \<Rightarrow> notification" where
  "reactionNotification j reactor callerId =
     \<lparr> notif_id = 0, notif_userId = jot_userId j, senderId = Some callerId,
       notif_type = jot_reaction, notif_title = ''New reaction on your jot'',
       notif_body = firstName reactor @ '' '' @ lastName reactor @ '' reacted to your jot'',
       notif_data = [(''jotId'', jot_id j)],
       notif_imageUrl = profilePicture reactor,
       notif_link = ''/jot/'' @ showInt (jot_id j) \<rparr>"

definition toggleReaction :: "faults \<Rightarrow> int \<Rightarrow> string \<Rightarrow> string option \<Rightarrow> store \<Rightarrow> outcome" where
  "toggleReaction flt callerId jotIdParam reactionTypeArg s =
     (let reactionType = (case reactionTypeArg of None \<Rightarrow> ''like'' | Some t \<Rightarrow> t) in
      if reactionType \<notin> set validReactions
      then (Inl (ValidationError ''Invalid reaction type''), s)
      else (case parseInt jotIdParam of
        NaN \<Rightarrow> (Inl PrismaClientValidationError, s)
      | Num jotId \<Rightarrow>
         (case jot_findUnique s jotId of
            None \<Rightarrow> (Inl (NotFoundError ''Jot not found''), s)
          | Some j \<Rightarrow>
             (case jotReaction_findFirst s jotId callerId of
                Some existingReaction \<Rightarrow>
                  (case dbWrite flt 0
                          (removeReactionTransaction (reaction_id existingReaction) jotId) s of
                     Inl e \<Rightarrow> (Inl e, s)
                   | Inr s1 \<Rightarrow>
                      (Inr \<lparr> status = 200, message = Some ''Reaction removed'',
                             payload = Reacted False None \<rparr>, s1))
              | None \<Rightarrow>
                  (case dbWrite flt 0
                          (addReactionTransaction jotId callerId (reactionOfString reactionType)) s of
                     Inl e \<Rightarrow> (Inl e, s)
                   | Inr s1 \<Rightarrow>
                      if jot_userId j \<noteq> callerId
                      then (case user_findUnique s1 callerId of
                              None \<Rightarrow> (Inl (PlainError ''TypeError''), s1)
                            | Some reactor \<Rightarrow>
                               (case dbWrite flt 1
                                       (notification_create (reactionNotification j reactor callerId)) s1 of
                                  Inl e \<Rightarrow> (Inl e, s1)
                                | Inr s2 \<Rightarrow>
                                   (Inr \<lparr> status = 200, message = Some ''Reaction added'',
                                          payload = Reacted True (Some reactionType) \<rparr>, s2)))
                      else (Inr \<lparr> status = 200, message = Some ''Reaction added'',
                                   payload = Reacted True (Some reactionType) \<rparr>, s1))))))"

definition addCommentTransaction :: "int \<Rightarrow> int \<Rightarrow> string \<Rightarrow> statement" where
  "addCommentTransaction jotId userId txt =
     transaction
       [jotComment_create jotId userId txt,
        jot_update jotId (\<lambda>j. j\<lparr>commentsCount := commentsCount j + 1\<rparr>)]"

definition deleteCommentTransaction :: "int \<Rightarrow> int \<Rightarrow> statement" where
  "deleteCommentTransaction commentId jotId =
     transaction
       [jotComment_delete commentId,
        jot_update jotId (\<lambda>j. j\<lparr>commentsCount := commentsCount j - 1\<rparr>)]"

definition commentNotification :: "jot \<Rightarrow> user \<Rightarrow> int \<Rightarrow> string \<Rightarrow> int \<Rightarrow> notification" where
  "commentNotification j commenter callerId txt commentId =
     \<lparr> notif_id = 0, notif_userId = jot_userId j, senderId = Some callerId,
       notif_type = jot_comment, notif_title = ''New comment on your jot'',
       notif_body = firstName commenter @ '' '' @ lastName commenter @ '' commented: '' @
                    take 50 txt @ (if length txt > 50 then ''...'' else []),
       notif_data = [(''jotId'', jot_id j), (''commentId'', commentId)],
       notif_imageUrl = profilePicture commenter,
       notif_link = ''/jot/'' @ showInt (jot_id j) \<rparr>"

definition addComment :: "faults \<Rightarrow> int \<Rightarrow> string \<Rightarrow> string option \<Rightarrow> store \<Rightarrow> outcome" where
  "addComment flt callerId jotIdParam contentArg s =
     (case contentArg of
        None \<Rightarrow> (Inl (ValidationError ''Comment content is required''), s)
      | Some txt \<Rightarrow>
         if txt = [] \<or> length (trim txt) = 0
         then (Inl (ValidationError ''Comment content is required''), s)
         else if length txt > 500
         then (Inl (ValidationError ''Comment must be less than 500 characters''), s)
         else (case parseInt jotIdParam of
            NaN \<Rightarrow> (Inl PrismaClientValidationError, s)
          | Num jotId \<Rightarrow>
             (case jot_findUnique s jotId of
                None \<Rightarrow> (Inl (NotFoundError ''Jot not found''), s)
              | Some j \<Rightarrow>
                 (case dbWrite flt 0 (addCommentTransaction jotId callerId (trim txt)) s of
                    Inl e \<Rightarrow> (Inl e, s)
                  | Inr s1 \<Rightarrow>
                     (let comment = jotComment_row s jotId callerId (trim txt) in
                      if jot_userId j \<noteq> callerId
                      then (case user_findUnique s1 callerId of
                              None \<Rightarrow> (Inl (PlainError ''TypeError''), s1)
                            | Some commenter \<Rightarrow>
                               (case dbWrite flt 1
                                       (notification_create
                                          (commentNotification j commenter callerId txt
                                             (comment_id comment))) s1 of
                                  Inl e \<Rightarrow> (Inl e, s1)
                                | Inr s2 \<Rightarrow>
                                   (Inr \<lparr> status = 201, message = None,
                                          payload = CommentData comment \<rparr>, s2)))
                      else (Inr \<lparr> status = 201, message = None,
                                   payload = CommentData comment \<rparr>, s1))))))"

definition deleteComment :: "faults \<Rightarrow> int \<Rightarrow> string \<Rightarrow> store \<Rightarrow> outcome" where
  "deleteComment flt callerId commentIdParam s =
     (case parseInt commentIdParam of
        NaN \<Rightarrow> (Inl PrismaClientValidationError, s)
      | Num commentId \<Rightarrow>
         (case jotComment_findUnique s commentId of
            None \<Rightarrow> (Inl (NotFoundError ''Comment not found''), s)
          | Some comment \<Rightarrow>
             if comment_userId comment \<noteq> callerId
             then (Inl (AuthorizationError ''You can only delete your own comments''), s)
             else (case dbWrite flt 0
                          (deleteCommentTransaction commentId (comment_jotId comment)) s of
                     Inl e \<Rightarrow> (Inl e, s)
                   | Inr s1 \<Rightarrow>
                      (Inr \<lparr> status = 200, message = Some ''Comment deleted successfully'',
                             payload = NoData \<rparr>, s1))))"

section \<open>Story controller: viewing and listing\<close>

text \<open>
  \<open>now\<close> is the value of \<^verbatim>\<open>new Date()\<close> when the handler runs, in milliseconds,
  as \<open>expiresAt\<close> is.
\<close>

definition viewStory :: "faults \<Rightarrow> int \<Rightarrow> int \<Rightarrow> string \<Rightarrow> store \<Rightarrow> outcome" where
  "viewStory flt now userId idParam s =
     (case parseInt idParam of
        NaN \<Rightarrow> (Inl (ValidationError ''Invalid story ID''), s)
      | Num storyId \<Rightarrow>
         (case story_findUnique s storyId of
            None \<Rightarrow> (Inl (NotFoundError ''Story not found''), s)
          | Some st \<Rightarrow>
             if now > expiresAt st
             then (Inl (ValidationError ''This story has expired''), s)
             else (case storyView_findUnique s storyId userId of
                Some existingView \<Rightarrow>
                  (Inr \<lparr> status = 200, message = Some ''Story viewed'', payload = NoData \<rparr>, s)
              | None \<Rightarrow>
                  (case dbWrite flt 0 (storyView_create storyId userId) s of
                     Inl e \<Rightarrow> (Inl e, s)
                   | Inr s1 \<Rightarrow>
                      (case dbWrite flt 1
                              (story_update storyId (\<lambda>t. t\<lparr>viewsCount := viewsCount t + 1\<rparr>)) s1 of
                         Inl e \<Rightarrow> (Inl e, s1)
                       | Inr s2 \<Rightarrow>
                          (Inr \<lparr> status = 200, message = Some ''Story viewed'',
                                 payload = NoData \<rparr>, s2))))))"

text \<open>
  The listing of active stories of the users the caller follows, newest first (the
  rows are in insertion order), each with its author and the caller's
  \<^verbatim>\<open>hasViewed\<close> flag.
\<close>

definition activeStories :: "int \<Rightarrow> int \<Rightarrow> store \<Rightarrow> story list" where
  "activeStories now userId s =
     (let followingIds = map followingId (filter (\<lambda>f. followerId f = userId) (follows s))
      in rev (filter (\<lambda>st. story_userId st \<in> set followingIds \<and> expiresAt st > now) (stories s)))"

definition getActiveStories :: "int \<Rightarrow> int \<Rightarrow> store \<Rightarrow> outcome" where
  "getActiveStories now userId s =
     (Inr \<lparr> status = 200, message = None,
            payload = StoriesData
              (map (\<lambda>st. (st, user_findUnique s (story_userId st),
                          storyView_findUnique s (story_id st) userId \<noteq> None))
                 (activeStories now userId s)) \<rparr>, s)"

text \<open>
  Further view requests by the same viewer on the same story, one per entry of the
  list (its fault plan and its clock), whatever each of them answers.
\<close>

fun viewStoryRepeat :: "(faults \<times> int) list \<Rightarrow> int \<Rightarrow> string \<Rightarrow> store \<Rightarrow> store" where
  "viewStoryRepeat [] userId idParam s = s"
| "viewStoryRepeat ((flt, now) # rest) userId idParam s =
     viewStoryRepeat rest userId idParam (snd (viewStory flt now userId idParam s))"

text \<open>The unique index on \<^verbatim>\<open>(storyId, viewerId)\<close>.\<close>

definition storyViewsUnique :: "store \<Rightarrow> bool" where
  "storyViewsUnique s \<longleftrightarrow> distinct (map (\<lambda>v. (view_storyId v, viewerId v)) (storyViews s))"

section \<open>Counter consistency of jots and stories\<close>

definition reactionsOf :: "store \<Rightarrow> int \<Rightarrow> int" where
  "reactionsOf s i = int (length (filter (\<lambda>r. reaction_jotId r = i) (jotReactions s)))"

definition commentsOf :: "store \<Rightarrow> int \<Rightarrow> int" where
  "commentsOf s i = int (length (filter (\<lambda>c. comment_jotId c = i) (jotComments s)))"

definition jotCountersConsistent :: "store \<Rightarrow> bool" where
  "jotCountersConsistent s \<longleftrightarrow>
     distinct (map reaction_id (jotReactions s)) \<and>
     distinct (map comment_id (jotComments s)) \<and>
     list_all (\<lambda>j. reactionsCount j = reactionsOf s (jot_id j) \<and>
                    commentsCount j = commentsOf s (jot_id j)) (jots s)"

definition viewsOf :: "store \<Rightarrow> int \<Rightarrow> int" where
  "viewsOf s i = int (length (filter (\<lambda>v. view_storyId v = i) (storyViews s)))"

definition viewCountersConsistent :: "store \<Rightarrow> bool" where
  "viewCountersConsistent s \<longleftrightarrow> list_all (\<lambda>t. viewsCount t = viewsOf s (story_id t)) (stories s)"

section \<open>Media upload (utils/cloudinary)\<close>

record multerFile =
  fieldname :: string
  originalname :: string
  encoding :: string
  mimetype :: string
  file_size :: nat
  buffer :: "string option"

record uploadResult =
  success :: bool
  url :: "string option"
  publicId :: "string option"
  upload_error :: "string option"

text \<open>
  The external media store: \<^verbatim>\<open>cloudinary.uploader.upload\<close> for a file and a folder
  gives \<^verbatim>\<open>secure_url\<close> and \<^verbatim>\<open>public_id\<close>, or throws (\<open>None\<close>).
\<close>

type_synonym cloudinary = "multerFile \<Rightarrow> string \<Rightarrow> (string \<times> string) option"

definition uploadImage :: "cloudinary \<Rightarrow> multerFile \<Rightarrow> string \<Rightarrow> uploadResult" where
  "uploadImage cloud file folder =
     (if buffer file = None
      then \<lparr> success = False, url = None, publicId = None, upload_error = Some ''No file provided'' \<rparr>
      else (case cloud file folder of
              None \<Rightarrow> \<lparr> success = False, url = None, publicId = None,
                        upload_error = Some ''Failed to upload image'' \<rparr>
            | Some (u, pid) \<Rightarrow> \<lparr> success = True, url = Some u, publicId = Some pid,
                                upload_error = None \<rparr>))"

text \<open>JavaScript truthiness of an optional string, and the string itself.\<close>

definition truthy :: "string option \<Rightarrow> bool" where
  "truthy x \<longleftrightarrow> (case x of None \<Rightarrow> False | Some t \<Rightarrow> t \<noteq> [])"

definition strOf :: "string option \<Rightarrow> string" where
  "strOf x = (case x of None \<Rightarrow> [] | Some t \<Rightarrow> t)"

text \<open>\<^verbatim>\<open>x?.trim() || null\<close>.\<close>

definition trimOrNull :: "string option \<Rightarrow> string option" where
  "trimOrNull x = (case x of None \<Rightarrow> None | Some t \<Rightarrow> if trim t = [] then None else Some (trim t))"

section \<open>Auth and user controllers: endpoints that return a user\<close>

definition optStr :: "string option \<Rightarrow> json" where
  "optStr x = (case x of None \<Rightarrow> JNull | Some t \<Rightarrow> JStr t)"

text \<open>The object Prisma returns for a Users row.\<close>

definition userObject :: "user \<Rightarrow> jsobject" where
  "userObject u =
     [(''id'', JNum (user_id u)), (''firstName'', JStr (firstName u)),
      (''lastName'', JStr (lastName u)), (''email'', JStr (email u)),
      (''password'', JStr (password u)), (''profilePicture'', optStr (profilePicture u)),
      (''profilePicturePublicId'', optStr (profilePicturePublicId u)), (''bio'', optStr (bio u)),
      (''userTags'', (case userTags u of None \<Rightarrow> JNull | Some ts \<Rightarrow> JArr (map JStr ts))),
      (''followersCount'', JNum (followersCount u)), (''followingCount'', JNum (followingCount u))]"

text \<open>\<^verbatim>\<open>const { password, ...sanitized } = user; return sanitized\<close>.\<close>

definition sanitizeUser :: "jsobject \<Rightarrow> jsobject" where
  "sanitizeUser usr = filter (\<lambda>kv. fst kv \<noteq> ''password'') usr"

datatype tagsInput = TagsString string | TagsArray "string list"

definition tagsTruthy :: "tagsInput option \<Rightarrow> bool" where
  "tagsTruthy x \<longleftrightarrow> (case x of None \<Rightarrow> False | Some (TagsString t) \<Rightarrow> t \<noteq> [] | Some (TagsArray ts) \<Rightarrow> True)"

record userBody =
  body_firstName :: "string option"
  body_lastName :: "string option"
  body_email :: "string option"
  body_password :: "string option"
  body_bio :: "string option"
  body_tags :: "tagsInput option"

text \<open>The external libraries: \<^verbatim>\<open>bcrypt.hash\<close>, \<^verbatim>\<open>bcrypt.compare\<close>, \<^verbatim>\<open>jwt.sign\<close>.\<close>

record crypto =
  bcryptHash :: "string \<Rightarrow> string"
  bcryptCompare :: "string \<Rightarrow> string \<Rightarrow> bool"
  jwtSign :: "int \<Rightarrow> string \<Rightarrow> string"

text \<open>
  \<^verbatim>\<open>register\<close> and \<^verbatim>\<open>login\<close> catch their own errors: \<open>Inl e\<close> is the error caught,
  answered with \<open>authErrorStatus e\<close>. The other handlers rethrow to the error boundary,
  which answers with \<open>statusCode e\<close>.
\<close>

definition authErrorStatus :: "error \<Rightarrow> nat" where
  "authErrorStatus e =
     (case e of ValidationError m \<Rightarrow> 400 | ConflictError m \<Rightarrow> 409 | _ \<Rightarrow> 500)"

definition register ::
  "faults \<Rightarrow> crypto \<Rightarrow> cloudinary \<Rightarrow> userBody \<Rightarrow> multerFile option \<Rightarrow> store \<Rightarrow> outcome" where
  "register flt cr cloud body profilePictureFile s =
     (if \<not> truthy (body_firstName body) \<or> \<not> truthy (body_lastName body) \<or>
         \<not> truthy (body_email body) \<or> \<not> truthy (body_password body)
      then (Inl (ValidationError
              ''Please provide all required fields: firstName, lastName, email, password''), s)
      else if \<not> isValidEmail (strOf (body_email body))
      then (Inl (ValidationError ''Invalid email format''), s)
      else if \<not> isValidPassword (strOf (body_password body))
      then (Inl (ValidationError ''Password must be at least 6 characters long''), s)
      else (case user_findByEmail s (toLowerCase (strOf (body_email body))) of
         Some existingUser \<Rightarrow> (Inl (ConflictError ''User with this email already exists''), s)
       | None \<Rightarrow>
          (let tagList = (if tagsTruthy (body_tags body)
                          then (case body_tags body of
                                  Some (TagsString t) \<Rightarrow> Some (map trim (split CHR '','' t))
                                | Some (TagsArray ts) \<Rightarrow> Some ts
                                | None \<Rightarrow> None)
                          else None);
               hashedPassword = bcryptHash cr (strOf (body_password body));
               userData = \<lparr> user_id = 0, firstName = trim (strOf (body_firstName body)),
                            lastName = trim (strOf (body_lastName body)),
                            email = toLowerCase (strOf (body_email body)),
                            password = hashedPassword, profilePicture = None,
                            profilePicturePublicId = None, bio = trimOrNull (body_bio body),
                            userTags = tagList, followersCount = 0, followingCount = 0 \<rparr>
           in (case (case profilePictureFile of
                       None \<Rightarrow> Inr userData
                     | Some f \<Rightarrow>
                        (let uploadResult = uploadImage cloud f ''user_profiles'' in
                         if \<not> success uploadResult
                         then Inl (ValidationError (orDefault (upload_error uploadResult)
                                      ''Failed to upload profile picture''))
                         else Inr (userData\<lparr>profilePicture := url uploadResult,
                                     profilePicturePublicId := publicId uploadResult\<rparr>))) of
                 Inl e \<Rightarrow> (Inl e, s)
               | Inr userData' \<Rightarrow>
                  (case dbWrite flt 0 (user_create userData') s of
                     Inl e \<Rightarrow> (Inl e, s)
                   | Inr s1 \<Rightarrow>
                      (let newUser = user_row s userData' in
                       (Inr \<lparr> status = 201, message = Some ''User registered successfully'',
                              payload = AuthData (sanitizeUser (userObject newUser))
                                          (jwtSign cr (user_id newUser) (email newUser)) \<rparr>, s1)))))))"

definition login :: "crypto \<Rightarrow> userBody \<Rightarrow> store \<Rightarrow> outcome" where
  "login cr body s =
     (if \<not> truthy (body_email body) \<or> \<not> truthy (body_password body)
      then (Inl (ValidationError ''Please provide email and password''), s)
      else (case user_findByEmail s (toLowerCase (strOf (body_email body))) of
         None \<Rightarrow> (Inl (ValidationError ''Invalid credentials''), s)
       | Some u \<Rightarrow>
          if \<not> bcryptCompare cr (strOf (body_password body)) (password u)
          then (Inl (ValidationError ''Invalid credentials''), s)
          else (Inr \<lparr> status = 200, message = Some ''Login successful'',
                       payload = AuthData (sanitizeUser (userObject u))
                                   (jwtSign cr (user_id u) (email u)) \<rparr>, s)))"

definition getCurrentUser :: "int \<Rightarrow> store \<Rightarrow> outcome" where
  "getCurrentUser callerId s =
     (case user_findUnique s callerId of
        None \<Rightarrow> (Inl (NotFoundError ''User not found''), s)
      | Some u \<Rightarrow>
         (Inr \<lparr> status = 200, message = None, payload = UserData (sanitizeUser (userObject u)) \<rparr>, s))"

text \<open>
  \<^verbatim>\<open>updateUser\<close> reads \<^verbatim>\<open>userTags\<close> from the body where \<^verbatim>\<open>register\<close> reads
  \<^verbatim>\<open>tags\<close>; \<open>body_tags\<close> stands for both. \<^verbatim>\<open>prisma.user.update\<close> returns the
  row it wrote: the model reads that row back from the updated store, where it is
  present. Deleting the superseded picture from the media store is best effort and
  leaves the database alone.
\<close>

definition updateData :: "userBody \<Rightarrow> user \<Rightarrow> user" where
  "updateData body u =
     (let u1 = (if truthy (body_firstName body)
                then u\<lparr>firstName := trim (strOf (body_firstName body))\<rparr> else u);
          u2 = (if truthy (body_lastName body)
                then u1\<lparr>lastName := trim (strOf (body_lastName body))\<rparr> else u1);
          u3 = (if truthy (body_email body)
                then u2\<lparr>email := toLowerCase (strOf (body_email body))\<rparr> else u2);
          u4 = (if body_bio body \<noteq> None then u3\<lparr>bio := trimOrNull (body_bio body)\<rparr> else u3)
      in if tagsTruthy (body_tags body)
         then u4\<lparr>userTags := (case body_tags body of
                                 Some (TagsArray ts) \<Rightarrow> Some ts
                               | Some (TagsString t) \<Rightarrow> Some (split CHR '','' t)
                               | None \<Rightarrow> None)\<rparr>
         else u4)"

definition updateUser :: "faults \<Rightarrow> int \<Rightarrow> userBody \<Rightarrow> store \<Rightarrow> outcome" where
  "updateUser flt callerId body s =
     (if truthy (body_email body) \<and> \<not> isValidEmail (strOf (body_email body))
      then (Inl (ValidationError ''Invalid email format''), s)
      else if truthy (body_email body) \<and>
              find (\<lambda>u. email u = toLowerCase (strOf (body_email body)) \<and> user_id u \<noteq> callerId)
                (users s) \<noteq> None
      then (Inl (ValidationError ''Email already exists, use a different email address''), s)
      else (case dbWrite flt 0 (user_update callerId (updateData body)) s of
              Inl e \<Rightarrow> (Inl e, s)
            | Inr s1 \<Rightarrow>
               (case user_findUnique s1 callerId of
                  None \<Rightarrow> (Inl (PlainError ''TypeError''), s1)
                | Some updatedUser \<Rightarrow>
                   (Inr \<lparr> status = 200, message = Some ''User updated successfully'',
                          payload = UserData (sanitizeUser (userObject updatedUser)) \<rparr>, s1))))"

definition updateProfilePicture ::
  "faults \<Rightarrow> cloudinary \<Rightarrow> int \<Rightarrow> multerFile option \<Rightarrow> store \<Rightarrow> outcome" where
  "updateProfilePicture flt cloud callerId newProfilePicture s =
     (case newProfilePicture of
        None \<Rightarrow> (Inl (ValidationError ''No profile picture provided''), s)
      | Some f \<Rightarrow>
         (case user_findUnique s callerId of
            None \<Rightarrow> (Inl (NotFoundError ''User not found''), s)
          | Some u \<Rightarrow>
             (let uploadResult = uploadImage cloud f ''user_profiles'' in
              if \<not> success uploadResult
              then (Inl (ValidationError (orDefault (upload_error uploadResult)
                           ''Failed to upload profile picture'')), s)
              else (case dbWrite flt 0
                           (user_update callerId
                              (\<lambda>u. u\<lparr>profilePicture := url uploadResult,
                                     profilePicturePublicId := publicId uploadResult\<rparr>)) s of
                      Inl e \<Rightarrow> (Inl e, s)
                    | Inr s1 \<Rightarrow>
                       (case user_findUnique s1 callerId of
                          None \<Rightarrow> (Inl (PlainError ''TypeError''), s1)
                        | Some updatedUser \<Rightarrow>
                           (Inr \<lparr> status = 200,
                                  message = Some ''Profile picture updated successfully'',
                                  payload = UserData (sanitizeUser (userObject updatedUser)) \<rparr>,
                            s1))))))"

datatype userEndpoint =
    Register faults crypto cloudinary userBody "multerFile option"
  | Login crypto userBody
  | GetCurrentUser int
  | UpdateUser faults int userBody
  | UpdateProfilePicture faults cloudinary int "multerFile option"

fun runUserEndpoint :: "userEndpoint \<Rightarrow> store \<Rightarrow> outcome" where
  "runUserEndpoint (Register flt cr cloud body f) s = register flt cr cloud body f s"
| "runUserEndpoint (Login cr body) s = login cr body s"
| "runUserEndpoint (GetCurrentUser callerId) s = getCurrentUser callerId s"
| "runUserEndpoint (UpdateUser flt callerId body) s = updateUser flt callerId body s"
| "runUserEndpoint (UpdateProfilePicture flt cloud callerId f) s =
     updateProfilePicture flt cloud callerId f s"

text \<open>The user object of a reply, when it carries one.\<close>

fun replyUser :: "reply \<Rightarrow> jsobject option" where
  "replyUser r =
     (case payload r of UserData obj \<Rightarrow> Some obj | AuthData obj tok \<Rightarrow> Some obj | _ \<Rightarrow> None)"

section \<open>Media-bearing writes: jots and stories\<close>

definition createJot ::
  "faults \<Rightarrow> cloudinary \<Rightarrow> int \<Rightarrow> string option \<Rightarrow> multerFile option \<Rightarrow> store \<Rightarrow> outcome" where
  "createJot flt cloud callerId contentArg media s =
     (if \<not> truthy contentArg \<or> length (trim (strOf contentArg)) = 0
      then (Inl (ValidationError ''Content is required''), s)
      else if length (strOf contentArg) > 1000
      then (Inl (ValidationError ''Content must be less than 1000 characters''), s)
      else (let jotData = \<lparr> jot_id = 0, jot_userId = callerId,
                              jot_content = trim (strOf contentArg), jot_mediaUrl = None,
                              jot_mediaPublicId = None, jot_mediaType = None,
                              reactionsCount = 0, commentsCount = 0 \<rparr>
            in (case (case media of
                        None \<Rightarrow> Inr jotData
                      | Some f \<Rightarrow>
                         (let uploadResult = uploadImage cloud f ''jots'' in
                          if \<not> success uploadResult
                          then Inl (ValidationError (orDefault (upload_error uploadResult)
                                       ''Failed to upload media''))
                          else Inr (jotData\<lparr>jot_mediaUrl := url uploadResult,
                                      jot_mediaPublicId := publicId uploadResult,
                                      jot_mediaType :=
                                        Some (if startsWith (mimetype f) ''video/''
                                              then video else image)\<rparr>))) of
                  Inl e \<Rightarrow> (Inl e, s)
                | Inr jotData' \<Rightarrow>
                   (case dbWrite flt 0 (jot_create jotData') s of
                      Inl e \<Rightarrow> (Inl e, s)
                    | Inr s1 \<Rightarrow>
                       (Inr \<lparr> status = 201, message = None,
                              payload = JotData (jot_row s jotData') \<rparr>, s1)))))"

text \<open>
  \<^verbatim>\<open>calculateStoryExpiration\<close>: 24 hours after \<open>now\<close>, in milliseconds (the server's
  local time has no clock change within the day).
\<close>

definition calculateStoryExpiration :: "int \<Rightarrow> int" where
  "calculateStoryExpiration now = now + 24 * 3600000"

definition createStory ::
  "faults \<Rightarrow> cloudinary \<Rightarrow> int \<Rightarrow> int \<Rightarrow> string option \<Rightarrow> multerFile option \<Rightarrow> store \<Rightarrow> outcome" where
  "createStory flt cloud now userId captionArg file s =
     (case file of
        None \<Rightarrow> (Inl (ValidationError ''Media file is required for story''), s)
      | Some f \<Rightarrow>
         (let mediaKind = (if startsWith (mimetype f) ''video/'' then video else image);
              uploadResult = uploadImage cloud f ''stories''
          in if \<not> success uploadResult \<or> \<not> truthy (url uploadResult)
             then (Inl (PlainError ''Failed to upload media to Cloudinary''), s)
             else (let row = \<lparr> story_id = 0, story_userId = userId,
                                story_mediaUrl = strOf (url uploadResult),
                                story_mediaPublicId =
                                  (if truthy (publicId uploadResult) then publicId uploadResult
                                   else None),
                                story_mediaType = mediaKind, caption = trimOrNull captionArg,
                                viewsCount = 0, expiresAt = calculateStoryExpiration now \<rparr>
                   in (case dbWrite flt 0 (story_create row) s of
                         Inl e \<Rightarrow> (Inl e, s)
                       | Inr s1 \<Rightarrow>
                          (Inr \<lparr> status = 201, message = None,
                                 payload = StoryData (story_row s row) \<rparr>, s1)))))"

section \<open>Paginated listings\<close>

definition getJotsFeed :: "int \<Rightarrow> string option \<Rightarrow> string option \<Rightarrow> store \<Rightarrow> outcome" where
  "getJotsFeed callerId pageArg limitArg s =
     (let pg = parsePagination pageArg limitArg in
      case findManyPaged (limit pg) (offset pg) (rev (jots s)) of
        Inl e \<Rightarrow> (Inl e, s)
      | Inr js \<Rightarrow>
         (Inr \<lparr> status = 200, message = None,
                payload = JotsData
                  (map (\<lambda>j. (j, jotReaction_findFirst s (jot_id j) callerId)) js)
                  (Num (int (length js)) = limit pg) \<rparr>, s))"

section \<open>Diary controller\<close>

definition getDiaryById :: "int \<Rightarrow> string \<Rightarrow> store \<Rightarrow> outcome" where
  "getDiaryById userId idParam s =
     (case parseInt idParam of
        NaN \<Rightarrow> (Inl (ValidationError ''Invalid diary ID''), s)
      | Num diaryId \<Rightarrow>
         (case diary_findUnique s diaryId of
            None \<Rightarrow> (Inl (NotFoundError ''Diary not found''), s)
          | Some d \<Rightarrow>
             if \<not> isPublic d \<and> diary_userId d \<noteq> userId
             then (Inl (AuthorizationError ''You don't have permission to view this diary''), s)
             else (Inr \<lparr> status = 200, message = None,
                          payload = DiaryData d (user_findUnique s (diary_userId d)) \<rparr>, s)))"

section \<open>Diary entry controller\<close>

definition MAX_TAGS :: nat where
  "MAX_TAGS = 5"

record entryBody =
  body_title :: "string option"
  body_content :: "string option"
  body_diaryId :: "string option"
  body_entryTags :: "tagsInput option"

text \<open>The tag names of a request: trimmed, lower-cased, empties dropped.\<close>

definition parseTagNames :: "tagsInput option \<Rightarrow> string list" where
  "parseTagNames tagsArg =
     (if tagsTruthy tagsArg
      then (case tagsArg of
              Some (TagsString t) \<Rightarrow>
                filter (\<lambda>x. x \<noteq> []) (map (\<lambda>x. toLowerCase (trim x)) (split CHR '','' t))
            | Some (TagsArray ts) \<Rightarrow>
                filter (\<lambda>x. x \<noteq> []) (map (\<lambda>x. toLowerCase (trim x)) ts)
            | None \<Rightarrow> [])
      else [])"

text \<open>
  The loop that finds or creates each tag and links it to the entry. Its writes are
  numbered from \<open>k\<close>: two numbers per tag name, the tag's and the join row's.
\<close>

fun linkTags :: "faults \<Rightarrow> nat \<Rightarrow> int \<Rightarrow> int \<Rightarrow> string list \<Rightarrow> store \<Rightarrow> error option \<times> store" where
  "linkTags flt k userId entryId [] s = (None, s)"
| "linkTags flt k userId entryId (tagName # rest) s =
     (case (case tag_findFirst s tagName userId of
              Some t \<Rightarrow> Inr (t, s)
            | None \<Rightarrow>
               (case dbWrite flt k (tag_create tagName userId) s of
                  Inl e \<Rightarrow> Inl e
                | Inr s1 \<Rightarrow> Inr (tag_row s tagName userId, s1))) of
        Inl e \<Rightarrow> (Some e, s)
      | Inr (t, s1) \<Rightarrow>
         (case dbWrite flt (k + 1) (diaryEntryTag_create entryId (tag_id t)) s1 of
            Inl e \<Rightarrow> (Some e, s1)
          | Inr s2 \<Rightarrow> linkTags flt (k + 2) userId entryId rest s2))"

definition createDiaryEntry ::
  "faults \<Rightarrow> cloudinary \<Rightarrow> int \<Rightarrow> entryBody \<Rightarrow> multerFile option \<Rightarrow> store \<Rightarrow> outcome" where
  "createDiaryEntry flt cloud userId body file s =
     (if \<not> truthy (body_title body) \<or> trim (strOf (body_title body)) = []
      then (Inl (ValidationError ''Entry title is required''), s)
      else if \<not> truthy (body_content body) \<or> trim (strOf (body_content body)) = []
      then (Inl (ValidationError ''Entry content is required''), s)
      else if \<not> truthy (body_diaryId body)
      then (Inl (ValidationError ''Diary ID is required''), s)
      else (case parseInt (strOf (body_diaryId body)) of
         NaN \<Rightarrow> (Inl (ValidationError ''Invalid diary ID''), s)
       | Num parsedDiaryId \<Rightarrow>
          (case diary_findUnique s parsedDiaryId of
             None \<Rightarrow> (Inl (NotFoundError ''Diary not found''), s)
           | Some d \<Rightarrow>
              if diary_userId d \<noteq> userId
              then (Inl (AuthorizationError
                      ''You don't have permission to add entries to this diary''), s)
              else (let tagNames = parseTagNames (body_entryTags body) in
                if tagsTruthy (body_entryTags body) \<and> length tagNames > MAX_TAGS
                then (Inl (MaxTagsError ''Maximum 5 tags allowed per entry''), s)
                else (let coverImageUrl =
                            (case file of
                               None \<Rightarrow> None
                             | Some f \<Rightarrow>
                                (let uploadResult = uploadImage cloud f ''diary-entries'' in
                                 if success uploadResult \<and> truthy (url uploadResult)
                                 then url uploadResult else None));
                          row = \<lparr> entry_id = 0, entry_title = trim (strOf (body_title body)),
                                  entry_content = trim (strOf (body_content body)),
                                  coverImage = coverImageUrl, entry_diaryId = parsedDiaryId,
                                  entry_userId = userId, favorite = False \<rparr>
                      in (case dbWrite flt 0 (diaryEntry_create row) s of
                            Inl e \<Rightarrow> (Inl e, s)
                          | Inr s1 \<Rightarrow>
                             (let entry = diaryEntry_row s row in
                              case linkTags flt 1 userId (entry_id entry) tagNames s1 of
                                (Some e, s2) \<Rightarrow> (Inl e, s2)
                              | (None, s2) \<Rightarrow>
                                 (Inr \<lparr> status = 201, message = None,
                                        payload = EntryData entry
                                                    (entryTags s2 (entry_id entry)) \<rparr>, s2))))))))"

definition getDiaryEntries ::
  "int \<Rightarrow> string \<Rightarrow> string option \<Rightarrow> string option \<Rightarrow> store \<Rightarrow> outcome" where
  "getDiaryEntries userId idParam pageArg limitArg s =
     (let pg = parsePagination pageArg limitArg in
      case parseInt idParam of
        NaN \<Rightarrow> (Inl (ValidationError ''Invalid diary ID''), s)
      | Num diaryId \<Rightarrow>
         (case diary_findUnique s diaryId of
            None \<Rightarrow> (Inl (NotFoundError ''Diary not found''), s)
          | Some d \<Rightarrow>
             if \<not> isPublic d \<and> diary_userId d \<noteq> userId
             then (Inl (AuthorizationError ''You don't have permission to view these entries''), s)
             else (case findManyPaged (limit pg) (offset pg)
                          (rev (filter (\<lambda>e. entry_diaryId e = diaryId) (diaryEntries s))) of
                     Inl e \<Rightarrow> (Inl e, s)
                   | Inr entries \<Rightarrow>
                      (let totalCount = length (filter (\<lambda>e. entry_diaryId e = diaryId) (diaryEntries s));
                           hasMore = (case offset pg of
                                        Num k \<Rightarrow> k + int (length entries) < int totalCount
                                      | NaN \<Rightarrow> False)
                       in (Inr \<lparr> status = 200, message = None,
                                 payload = EntriesData
                                   (map (\<lambda>e. (e, entryTags s (entry_id e))) entries) hasMore \<rparr>,
                           s)))))"

section \<open>A small store for concrete runs\<close>

definition ann :: user where
  "ann = \<lparr> user_id = 1, firstName = ''Ann'', lastName = ''Lee'', email = ''ann@x.com'',
            password = ''$2b$10$hashA'', profilePicture = None, profilePicturePublicId = None,
            bio = None, userTags = None, followersCount = 0, followingCount = 0 \<rparr>"

definition bob :: user where
  "bob = \<lparr> user_id = 2, firstName = ''Bob'', lastName = ''Ray'', email = ''bob@x.com'',
            password = ''$2b$10$hashB'', profilePicture = None, profilePicturePublicId = None,
            bio = None, userTags = None, followersCount = 0, followingCount = 0 \<rparr>"

definition demoStore :: store where
  "demoStore =
     \<lparr> users = [ann, bob], follows = [],
       jots = [\<lparr> jot_id = 1, jot_userId = 2, jot_content = ''hello'', jot_mediaUrl = None,
                 jot_mediaPublicId = None, jot_mediaType = None, reactionsCount = 0,
                 commentsCount = 0 \<rparr>],
       jotComments = [], jotReactions = [],
       stories = [\<lparr> story_id = 1, story_userId = 2, story_mediaUrl = ''https://cdn/s1.jpg'',
                    story_mediaPublicId = None, story_mediaType = image, caption = None,
                    viewsCount = 0, expiresAt = 1000 \<rparr>],
       storyViews = [],
       diaries = [\<lparr> diary_id = 1, diary_userId = 1, diary_name = ''Private'',
                    diary_description = None, isPublic = False \<rparr>,
                  \<lparr> diary_id = 2, diary_userId = 1, diary_name = ''Open'',
                    diary_description = None, isPublic = True \<rparr>],
       diaryEntries = [], tags = [], diaryEntryTags = [], notifications = [] \<rparr>"

definition demoFile :: multerFile where
  "demoFile = \<lparr> fieldname = ''coverImage'', originalname = ''c.png'', encoding = ''7bit'',
                 mimetype = ''image/png'', file_size = 3, buffer = Some ''abc'' \<rparr>"

section \<open>Properties\<close>

lemma parseInt_examples:
  "parseInt ''12'' = Num 12" "parseInt '' -7px'' = Num (- 7)" "parseInt ''0x1f'' = Num 31"
  "parseInt ''abc'' = NaN" "parseInt '''' = NaN" "showInt 20 = ''20''"
  by (simp_all add: parseInt_def isWhiteSpace_def isRadixDigit_def digitValue_def digitsToInt_def
      showInt_def digitChar_def)

lemma string_helper_examples:
  "toLowerCase ''Work, Life'' = ''work, life''" "trim ''  a b  '' = ''a b''"
  "split CHR '','' ''a,,b'' = [''a'', [], ''b'']"
  "trim [CHR 0xA0, CHR ''a'', CHR 0x09, CHR 0xA0] = ''a''" "trim [CHR 0xA0] = []"
  "toLowerCase [CHR 0xC9, CHR 0xD7, CHR 0xDF] = [CHR 0xE9, CHR 0xD7, CHR 0xDF]"
  "parseInt (CHR 0xA0 # ''42'') = Num 42"
  by code_simp+

lemma isValidEmail_examples:
  "isValidEmail ''a@x.com''" "\<not> isValidEmail ''a@x''" "\<not> isValidEmail ''a b@x.com''"
  "\<not> isValidEmail ''a@x.''" "isValidEmail ''a@b.c.d''"
  by (simp_all add: isValidEmail_def emailChar_def isWhiteSpace_def)

subsection \<open>Follow counters\<close>

lemma freshId_gt: "i \<in> set ids \<Longrightarrow> i < freshId ids"
  unfolding freshId_def by (induction ids) auto

lemma freshId_notin: "freshId ids \<notin> set ids"
  using freshId_gt by blast

lemma follow_create_Inr:
  "follow_create a b s = Inr s' \<Longrightarrow>
     s' = s\<lparr>follows := follows s @
             [\<lparr>follow_id = freshId (map follow_id (follows s)), followerId = a, followingId = b\<rparr>]\<rparr>
     \<and> userExists s a \<and> userExists s b"
  by (auto simp: follow_create_def split: if_splits)

lemma user_update_Inr:
  "user_update i f s = Inr s' \<Longrightarrow>
     s' = s\<lparr>users := map (\<lambda>u. if user_id u = i then f u else u) (users s)\<rparr>"
  by (auto simp: user_update_def split: if_splits)

lemma follow_delete_Inr:
  "follow_delete i s = Inr s' \<Longrightarrow>
     s' = s\<lparr>follows := filter (\<lambda>f. follow_id f \<noteq> i) (follows s)\<rparr> \<and> i \<in> set (map follow_id (follows s))"
  by (auto simp: follow_delete_def split: if_splits)

lemma follow_tx_consistent:
  assumes c: "followCountersConsistent s"
    and t: "followTransaction a b s = Inr s'"
  shows "followCountersConsistent s'"
proof -
  from t obtain s1 s2 where 1: "follow_create a b s = Inr s1"
    and 2: "user_update a (\<lambda>u. u\<lparr>followingCount := followingCount u + 1\<rparr>) s1 = Inr s2"
    and 3: "user_update b (\<lambda>u. u\<lparr>followersCount := followersCount u + 1\<rparr>) s2 = Inr s'"
    by (auto simp: followTransaction_def split: sum.splits)
  note e1 = follow_create_Inr[OF 1] and e2 = user_update_Inr[OF 2] and e3 = user_update_Inr[OF 3]
  have f: "follows s' = follows s @
             [\<lparr>follow_id = freshId (map follow_id (follows s)), followerId = a, followingId = b\<rparr>]"
    using e1 e2 e3 by simp
  have u: "users s' = map (\<lambda>u. if user_id u = b then u\<lparr>followersCount := followersCount u + 1\<rparr> else u)
            (map (\<lambda>u. if user_id u = a then u\<lparr>followingCount := followingCount u + 1\<rparr> else u) (users s))"
    using e1 e2 e3 by simp
  have d: "distinct (map follow_id (follows s'))"
    using c freshId_notin[of "map follow_id (follows s)"] by (simp add: f followCountersConsistent_def)
  have "list_all (\<lambda>u. followersCount u = followersOf s' (user_id u) \<and>
                    followingCount u = followingOf s' (user_id u)) (users s')"
    using c unfolding followCountersConsistent_def u
    by (auto simp: list_all_iff followersOf_def followingOf_def f)
  with d show ?thesis by (simp add: followCountersConsistent_def)
qed

lemma length_filter_remove_one:
  assumes "distinct (map g xs)" "x \<in> set xs"
  shows "int (length (filter P (filter (\<lambda>y. g y \<noteq> g x) xs))) = int (length (filter P xs)) - (if P x then 1 else 0)"
  using assms
proof (induction xs)
  case Nil then show ?case by simp
next
  case (Cons y ys)
  show ?case
  proof (cases "y = x")
    case True
    then have "g x \<notin> g ` set ys" using Cons.prems by auto
    then have "\<forall>z\<in>set ys. g z \<noteq> g x" by (metis imageI)
    then have "filter (\<lambda>y. g y \<noteq> g x) ys = ys" by simp
    with True show ?thesis by simp
  next
    case False
    then have "x \<in> set ys" "g y \<noteq> g x" using Cons.prems by auto
    then show ?thesis using Cons by auto
  qed
qed

lemma find_SomeD: "find P xs = Some x \<Longrightarrow> x \<in> set xs \<and> P x"
  by (auto simp: find_Some_iff)

lemma unfollow_tx_consistent:
  assumes c: "followCountersConsistent s"
    and r: "follow_findFirst s a b = Some r"
    and t: "unfollowTransaction (follow_id r) a b s = Inr s'"
  shows "followCountersConsistent s'"
proof -
  from t obtain s1 s2 where 1: "follow_delete (follow_id r) s = Inr s1"
    and 2: "user_update a (\<lambda>u. u\<lparr>followingCount := followingCount u - 1\<rparr>) s1 = Inr s2"
    and 3: "user_update b (\<lambda>u. u\<lparr>followersCount := followersCount u - 1\<rparr>) s2 = Inr s'"
    by (auto simp: unfollowTransaction_def split: sum.splits)
  note e1 = follow_delete_Inr[OF 1] and e2 = user_update_Inr[OF 2] and e3 = user_update_Inr[OF 3]
  from r have rin: "r \<in> set (follows s)" and ra: "followerId r = a" and rb: "followingId r = b"
    by (auto simp: follow_findFirst_def dest: find_SomeD)
  have dist: "distinct (map follow_id (follows s))" using c by (simp add: followCountersConsistent_def)
  have f: "follows s' = filter (\<lambda>f. follow_id f \<noteq> follow_id r) (follows s)"
    using e1 e2 e3 by simp
  have u: "users s' = map (\<lambda>u. if user_id u = b then u\<lparr>followersCount := followersCount u - 1\<rparr> else u)
            (map (\<lambda>u. if user_id u = a then u\<lparr>followingCount := followingCount u - 1\<rparr> else u) (users s))"
    using e1 e2 e3 by simp
  have d: "distinct (map follow_id (follows s'))"
    using dist by (simp add: f distinct_map_filter)
  have cnt1: "followersOf s' i = followersOf s i - (if i = b then 1 else 0)" for i
    unfolding followersOf_def f using length_filter_remove_one[OF dist rin, of "\<lambda>f. followingId f = i"] rb by auto
  have cnt2: "followingOf s' i = followingOf s i - (if i = a then 1 else 0)" for i
    unfolding followingOf_def f using length_filter_remove_one[OF dist rin, of "\<lambda>f. followerId f = i"] ra by auto
  have "list_all (\<lambda>u. followersCount u = followersOf s' (user_id u) \<and>
                    followingCount u = followingOf s' (user_id u)) (users s')"
    using c unfolding followCountersConsistent_def u
    by (auto simp: list_all_iff cnt1 cnt2)
  with d show ?thesis by (simp add: followCountersConsistent_def)
qed

lemma notification_create_follows:
  "notification_create n s = Inr s' \<Longrightarrow> follows s' = follows s \<and> users s' = users s"
  by (auto simp: notification_create_def split: if_splits)

lemma followCountersConsistent_cong:
  "follows s' = follows s \<Longrightarrow> users s' = users s \<Longrightarrow> followCountersConsistent s' = followCountersConsistent s"
  by (simp add: followCountersConsistent_def followersOf_def followingOf_def)

lemma followUser_cases:
  assumes "followUser flt c p s = (r, s')"
  shows "s' = s \<or> (\<exists>b s1. followTransaction c b s = Inr s1 \<and>
        follows s' = follows s1 \<and> users s' = users s1)"
  using assms unfolding followUser_def dbWrite_def
  by (auto split: jsnum.splits option.splits sum.splits if_splits dest: notification_create_follows)

lemma followUser_consistent:
  assumes "followCountersConsistent s" "followUser flt c p s = (r, s')"
  shows "followCountersConsistent s'"
proof -
  from followUser_cases[OF assms(2)] show ?thesis
  proof (elim disjE exE conjE)
    assume "s' = s" with assms(1) show ?thesis by simp
  next
    fix b s1
    assume t: "followTransaction c b s = Inr s1"
      and e: "follows s' = follows s1" "users s' = users s1"
    from follow_tx_consistent[OF assms(1) t] followCountersConsistent_cong[OF e] show ?thesis
      by simp
  qed
qed

lemma unfollowUser_cases:
  assumes "unfollowUser flt c p s = (r, s')"
  shows "s' = s \<or> (\<exists>b row. follow_findFirst s c b = Some row \<and>
           unfollowTransaction (follow_id row) c b s = Inr s')"
  using assms unfolding unfollowUser_def dbWrite_def
  by (auto split: jsnum.splits option.splits sum.splits if_splits)

lemma unfollowUser_consistent:
  assumes "followCountersConsistent s" "unfollowUser flt c p s = (r, s')"
  shows "followCountersConsistent s'"
  using unfollowUser_cases[OF assms(2)] assms(1)
  by (auto dest: unfollow_tx_consistent)

text \<open>
  C1. Starting from a store whose follow counters agree with the Follows table, after
  any sequence of successful follow and unfollow requests (any callers, any targets,
  whatever the database does to the notification write) every user's
  \<^verbatim>\<open>followersCount\<close> is the number of Follow rows with that \<^verbatim>\<open>followingId\<close>
  and every user's \<^verbatim>\<open>followingCount\<close> is the number of Follow rows with that
  \<^verbatim>\<open>followerId\<close>.
\<close>

theorem follow_counters_invariant:
  assumes "followCountersConsistent s" "runFollowOps ops s = Some s'"
  shows "followCountersConsistent s'"
  using assms
proof (induction ops arbitrary: s)
  case Nil
  then show ?case by simp
next
  case (Cons x xs)
  obtain flt opn where x: "x = (flt, opn)" by (cases x)
  obtain r s1 where r: "runFollowOp flt opn s = (r, s1)" by (cases "runFollowOp flt opn s")
  have c1: "followCountersConsistent s1"
    using r Cons.prems(1) by (cases opn) (auto dest: followUser_consistent unfollowUser_consistent)
  from Cons.prems(2) x r have "runFollowOps xs s1 = Some s'"
    by (cases r) auto
  with c1 show ?case by (rule Cons.IH)
qed


theorem follow_counters_invariant_witness:
  "followCountersConsistent demoStore \<and>
   (case runFollowOps [(noFaults, Follow 1 ''2''), (noFaults, Follow 2 ''1''),
                       (noFaults, Unfollow 1 ''2'')] demoStore of
      None \<Rightarrow> False
    | Some s' \<Rightarrow>
        map followersCount (users s') = [1, 0] \<and> map followingCount (users s') = [0, 1] \<and>
        map followerId (follows s') = [2] \<and> followCountersConsistent s')"
proof -
  have h1: "followCountersConsistent demoStore"
    by code_simp
  have h2: "(case runFollowOps [(noFaults, Follow 1 ''2''), (noFaults, Follow 2 ''1''),
                       (noFaults, Unfollow 1 ''2'')] demoStore of
      None \<Rightarrow> False
    | Some s' \<Rightarrow>
        map followersCount (users s') = [1, 0] \<and> map followingCount (users s') = [0, 1] \<and>
        map followerId (follows s') = [2])"
    by code_simp
  then obtain s' where h3: "runFollowOps [(noFaults, Follow 1 ''2''), (noFaults, Follow 2 ''1''),
                       (noFaults, Unfollow 1 ''2'')] demoStore = Some s'"
    by (auto split: option.splits)
  from follow_counters_invariant[OF h1 h3] h1 h2 h3 show ?thesis
    by simp
qed

subsection \<open>Reactions\<close>

lemma find_snoc:
  "find P (xs @ [x]) = (case find P xs of Some y \<Rightarrow> Some y | None \<Rightarrow> if P x then Some x else None)"
  by (induction xs) auto

lemma find_map_update:
  assumes "\<And>x. k (f x) = k x"
  shows "find (\<lambda>x. k x = i) (map (\<lambda>x. if k x = i then f x else x) xs)
         = map_option f (find (\<lambda>x. k x = i) xs)"
  by (induction xs) (auto simp: assms)

lemma filter_fresh_snoc:
  assumes "\<And>y. y \<in> set xs \<Longrightarrow> k y \<noteq> k x"
  shows "filter (\<lambda>y. k y \<noteq> k x) (xs @ [x]) = xs"
  using assms by (auto simp: filter_id_conv)

lemma inc_dec_reactions_comp:
  "(\<lambda>j. if jot_id j = i then j\<lparr>reactionsCount := reactionsCount j - 1\<rparr> else j) \<circ>
   (\<lambda>j. if jot_id j = i then j\<lparr>reactionsCount := reactionsCount j + 1\<rparr> else j) = id"
  by (rule ext) auto

lemma freshId_neq: "y \<in> set xs \<Longrightarrow> k y \<noteq> freshId (map k xs)"
  by (metis freshId_gt imageI list.set_map less_irrefl)

lemma addReactionTransaction_ok:
  assumes "jot_findUnique s jotId = Some j" "userExists s callerId"
    "jotReaction_findFirst s jotId callerId = None"
  shows "addReactionTransaction jotId callerId rt s =
     Inr (s\<lparr>jotReactions := jotReactions s @
             [\<lparr>reaction_id = freshId (map reaction_id (jotReactions s)), reaction_jotId = jotId,
               reaction_userId = callerId, reaction_type = rt\<rparr>],
            jots := map (\<lambda>j. if jot_id j = jotId then j\<lparr>reactionsCount := reactionsCount j + 1\<rparr> else j) (jots s)\<rparr>)"
proof -
  from assms(1) have "jotExists s jotId"
    by (auto simp: jot_findUnique_def jotExists_def dest!: find_SomeD)
  with assms show ?thesis
    by (simp add: addReactionTransaction_def jotReaction_create_def jot_update_def jotExists_def)
qed

lemma removeReactionTransaction_ok:
  assumes "jotExists s jotId" "rid \<in> set (map reaction_id (jotReactions s))"
  shows "removeReactionTransaction rid jotId s =
     Inr (s\<lparr>jotReactions := filter (\<lambda>r. reaction_id r \<noteq> rid) (jotReactions s),
            jots := map (\<lambda>j. if jot_id j = jotId then j\<lparr>reactionsCount := reactionsCount j - 1\<rparr> else j) (jots s)\<rparr>)"
  using assms
  by (simp add: removeReactionTransaction_def jotReaction_delete_def jot_update_def jotExists_def)

lemma notification_create_frame:
  "notification_create n s = Inr s' \<Longrightarrow>
     users s' = users s \<and> follows s' = follows s \<and> jots s' = jots s \<and>
     jotComments s' = jotComments s \<and> jotReactions s' = jotReactions s \<and>
     stories s' = stories s \<and> storyViews s' = storyViews s"
  by (auto simp: notification_create_def split: if_splits)

text \<open>
  C3. A caller who exists in the store and has no reaction on an existing jot calls
  the reaction endpoint twice with valid reaction types, and the database executes
  both transactions. The first call creates the caller's reaction and raises
  \<^verbatim>\<open>reactionsCount\<close> by one; the second call answers 200 "Reaction removed" (it is
  not an error), and after it the JotReactions table and the Jots table, hence the
  jot's \<^verbatim>\<open>reactionsCount\<close>, are what they were before the first call: no second
  reaction accumulates.
\<close>

theorem toggleReaction_twice:
  assumes p: "parseInt jotIdParam = Num jotId"
    and j: "jot_findUnique s jotId = Some j"
    and u: "userExists s callerId"
    and n: "jotReaction_findFirst s jotId callerId = None"
    and v1: "(case a1 of None \<Rightarrow> ''like'' | Some t \<Rightarrow> t) \<in> set validReactions"
    and v2: "(case a2 of None \<Rightarrow> ''like'' | Some t \<Rightarrow> t) \<in> set validReactions"
    and f1: "\<not> flt1 0" and f2: "\<not> flt2 0"
    and c1: "toggleReaction flt1 callerId jotIdParam a1 s = (r1, s1)"
    and c2: "toggleReaction flt2 callerId jotIdParam a2 s1 = (r2, s2)"
  shows "jot_findUnique s1 jotId = Some (j\<lparr>reactionsCount := reactionsCount j + 1\<rparr>) \<and>
         length (jotReactions s1) = length (jotReactions s) + 1 \<and>
         jotReaction_findFirst s1 jotId callerId \<noteq> None \<and>
         r2 = Inr \<lparr> status = 200, message = Some ''Reaction removed'', payload = Reacted False None \<rparr> \<and>
         jotReactions s2 = jotReactions s \<and> jots s2 = jots s"
proof -
  define row where "row = \<lparr>reaction_id = freshId (map reaction_id (jotReactions s)), reaction_jotId = jotId,
               reaction_userId = callerId,
               reaction_type = reactionOfString (case a1 of None \<Rightarrow> ''like'' | Some t \<Rightarrow> t)\<rparr>"
  define inc where "inc = (\<lambda>j::jot. if jot_id j = jotId then j\<lparr>reactionsCount := reactionsCount j + 1\<rparr> else j)"
  define t1 where "t1 = s\<lparr>jotReactions := jotReactions s @ [row], jots := map inc (jots s)\<rparr>"
  have tx1: "addReactionTransaction jotId callerId
               (reactionOfString (case a1 of None \<Rightarrow> ''like'' | Some t \<Rightarrow> t)) s = Inr t1"
    unfolding t1_def row_def inc_def by (rule addReactionTransaction_ok[OF j u n])
  have "s1 = t1 \<or> (\<exists>nt. notification_create nt t1 = Inr s1)"
    using c1 by (auto simp: toggleReaction_def Let_def dbWrite_def p j n v1 f1 tx1
        split: option.splits sum.splits if_splits)
  then have s1: "jotReactions s1 = jotReactions s @ [row]" "jots s1 = map inc (jots s)"
    by (auto simp: t1_def dest: notification_create_frame)
  have ji: "jot_id j = jotId" using j by (auto simp: jot_findUnique_def dest: find_SomeD)
  have j1: "jot_findUnique s1 jotId = Some (j\<lparr>reactionsCount := reactionsCount j + 1\<rparr>)"
    using j ji unfolding jot_findUnique_def s1 inc_def
    by (subst find_map_update) auto
  have e1: "jotExists s1 jotId"
    using j1 by (auto simp: jot_findUnique_def jotExists_def dest!: find_SomeD)
  have r1: "jotReaction_findFirst s1 jotId callerId = Some row"
    using n by (simp add: jotReaction_findFirst_def s1 find_snoc row_def)
  have fresh: "\<And>y. y \<in> set (jotReactions s) \<Longrightarrow> reaction_id y \<noteq> reaction_id row"
    by (simp add: row_def freshId_neq)
  define t2 where "t2 = s1\<lparr>jotReactions := jotReactions s, jots := jots s\<rparr>"
  have tx2: "removeReactionTransaction (reaction_id row) jotId s1 = Inr t2"
    using removeReactionTransaction_ok[OF e1, of "reaction_id row"] filter_fresh_snoc[of "jotReactions s" reaction_id row, OF fresh]
    by (simp add: s1 t2_def inc_def inc_dec_reactions_comp)
  have "r2 = Inr \<lparr> status = 200, message = Some ''Reaction removed'', payload = Reacted False None \<rparr> \<and> s2 = t2"
    using c2 by (auto simp: toggleReaction_def Let_def dbWrite_def p j1 r1 v2 f2 tx2)
  then show ?thesis using j1 r1 s1 by (simp add: t2_def)
qed


theorem toggleReaction_twice_witness:
  "parseInt ''1'' = Num 1 \<and> jot_findUnique demoStore 1 = Some (hd (jots demoStore)) \<and>
   userExists demoStore 1 \<and> jotReaction_findFirst demoStore 1 1 = None \<and>
   ''love'' \<in> set validReactions \<and> ''like'' \<in> set validReactions \<and>
   (let o1 = toggleReaction noFaults 1 ''1'' (Some ''love'') demoStore;
        o2 = toggleReaction noFaults 1 ''1'' None (snd o1)
    in map reactionsCount (jots (snd o1)) = [1] \<and> map reaction_type (jotReactions (snd o1)) = [love] \<and>
       fst o2 = Inr \<lparr> status = 200, message = Some ''Reaction removed'', payload = Reacted False None \<rparr> \<and>
       jotReactions (snd o2) = jotReactions demoStore \<and> jots (snd o2) = jots demoStore)"
proof -
  have p: "parseInt ''1'' = Num 1" by code_simp
  have j: "jot_findUnique demoStore 1 = Some (hd (jots demoStore))" by code_simp
  have u: "userExists demoStore 1" by code_simp
  have n: "jotReaction_findFirst demoStore 1 1 = None" by code_simp
  have v1: "(case Some ''love'' of None \<Rightarrow> ''like'' | Some t \<Rightarrow> t) \<in> set validReactions" by code_simp
  have v2: "(case None of None \<Rightarrow> ''like'' | Some t \<Rightarrow> t) \<in> set validReactions" by code_simp
  have f: "\<not> noFaults 0" by (simp add: noFaults_def)
  define o1 where "o1 = toggleReaction noFaults 1 ''1'' (Some ''love'') demoStore"
  define o2 where "o2 = toggleReaction noFaults 1 ''1'' None (snd o1)"
  have c1: "toggleReaction noFaults 1 ''1'' (Some ''love'') demoStore = (fst o1, snd o1)"
    by (simp add: o1_def)
  have c2: "toggleReaction noFaults 1 ''1'' None (snd o1) = (fst o2, snd o2)"
    by (simp add: o2_def)
  have e: "map reactionsCount (jots (snd (toggleReaction noFaults 1 ''1'' (Some ''love'') demoStore))) = [1] \<and>
           map reaction_type (jotReactions (snd (toggleReaction noFaults 1 ''1'' (Some ''love'') demoStore))) = [love]"
    by code_simp
  from toggleReaction_twice[OF p j u n v1 v2 f f c1 c2] p j u n v1 v2 e
  show ?thesis by (simp add: o1_def o2_def Let_def)
qed

subsection \<open>Story views\<close>

lemma viewStory_viewed_unchanged:
  assumes "parseInt idParam = Num storyId" "storyView_findUnique s storyId viewer \<noteq> None"
  shows "snd (viewStory flt now viewer idParam s) = s"
  using assms by (auto simp: viewStory_def split: option.splits)

lemma viewStoryRepeat_viewed:
  assumes "parseInt idParam = Num storyId" "storyView_findUnique s storyId viewer \<noteq> None"
  shows "viewStoryRepeat calls viewer idParam s = s"
proof (induction calls)
  case Nil show ?case by simp
next
  case (Cons c cs)
  obtain flt now where c: "c = (flt, now)" by (cases c)
  show ?case using Cons viewStory_viewed_unchanged[OF assms, of flt now] by (simp add: c)
qed

lemma find_None_set: "find P xs = None \<Longrightarrow> x \<in> set xs \<Longrightarrow> \<not> P x"
  by (induction xs) (auto split: if_splits)

text \<open>
  C4. A viewer who exists in the store views a story that they have not viewed and that
  has not expired (in particular an active one), and the database executes both
  writes; then the same viewer views it again any number of times, at any times.
  After all of that the story's \<^verbatim>\<open>viewsCount\<close> is its value before the first view
  plus one, exactly one StoryView row exists for the pair, and the unique index on
  \<^verbatim>\<open>(storyId, viewerId)\<close> still holds.
\<close>

theorem viewStory_counts_once:
  assumes p: "parseInt idParam = Num storyId"
    and st: "story_findUnique s storyId = Some st"
    and u: "userExists s viewer"
    and n: "storyView_findUnique s storyId viewer = None"
    and uq: "storyViewsUnique s"
    and a: "now \<le> expiresAt st"
    and f: "\<not> flt 0" "\<not> flt 1"
    and c1: "viewStory flt now viewer idParam s = (r1, s1)"
    and c2: "viewStoryRepeat calls viewer idParam s1 = s2"
  shows "r1 = Inr \<lparr> status = 200, message = Some ''Story viewed'', payload = NoData \<rparr> \<and>
         story_findUnique s2 storyId = Some (st\<lparr>viewsCount := viewsCount st + 1\<rparr>) \<and>
         length (filter (\<lambda>v. view_storyId v = storyId \<and> viewerId v = viewer) (storyViews s2)) = 1 \<and>
         storyViewsUnique s2"
proof -
  define row where "row = \<lparr>view_id = freshId (map view_id (storyViews s)), view_storyId = storyId,
               viewerId = viewer\<rparr>"
  define inc where "inc = (\<lambda>t::story. if story_id t = storyId then t\<lparr>viewsCount := viewsCount t + 1\<rparr> else t)"
  define t1 where "t1 = s\<lparr>storyViews := storyViews s @ [row]\<rparr>"
  define t2 where "t2 = t1\<lparr>stories := map inc (stories s)\<rparr>"
  have si: "story_id st = storyId" and sin: "st \<in> set (stories s)"
    using st by (auto simp: story_findUnique_def dest: find_SomeD)
  then have ex: "storyExists s storyId" by (auto simp: storyExists_def)
  have w1: "storyView_create storyId viewer s = Inr t1"
    using ex u n by (simp add: storyView_create_def t1_def row_def)
  have w2: "story_update storyId (\<lambda>t. t\<lparr>viewsCount := viewsCount t + 1\<rparr>) t1 = Inr t2"
    using ex by (simp add: story_update_def t2_def t1_def inc_def storyExists_def)
  have r: "r1 = Inr \<lparr> status = 200, message = Some ''Story viewed'', payload = NoData \<rparr>" and s1: "s1 = t2"
    using c1 a f by (auto simp: viewStory_def dbWrite_def p st n w1 w2)
  have v1: "storyView_findUnique s1 storyId viewer = Some row"
    using n by (simp add: s1 t2_def t1_def storyView_findUnique_def find_snoc row_def)
  have s2: "s2 = t2"
    using viewStoryRepeat_viewed[OF p, of s1 viewer calls] v1 c2 s1 by simp
  have j: "story_findUnique s2 storyId = Some (st\<lparr>viewsCount := viewsCount st + 1\<rparr>)"
    using st si unfolding s2 t2_def t1_def story_findUnique_def inc_def
    by (simp, subst find_map_update) auto
  have none: "filter (\<lambda>v. view_storyId v = storyId \<and> viewerId v = viewer) (storyViews s) = []"
    using n by (auto simp: storyView_findUnique_def filter_empty_conv dest: find_None_set)
  have cnt: "length (filter (\<lambda>v. view_storyId v = storyId \<and> viewerId v = viewer) (storyViews s2)) = 1"
    by (simp add: s2 t2_def t1_def none row_def)
  have "(storyId, viewer) \<notin> set (map (\<lambda>v. (view_storyId v, viewerId v)) (storyViews s))"
    using n by (auto simp: storyView_findUnique_def dest: find_None_set)
  then have "storyViewsUnique s2"
    using uq by (simp add: storyViewsUnique_def s2 t2_def t1_def row_def)
  with r j cnt show ?thesis by simp
qed


theorem viewStory_counts_once_witness:
  "parseInt ''1'' = Num 1 \<and> story_findUnique demoStore 1 = Some (hd (stories demoStore)) \<and>
   userExists demoStore 1 \<and> storyView_findUnique demoStore 1 1 = None \<and>
   storyViewsUnique demoStore \<and> 10 \<le> expiresAt (hd (stories demoStore)) \<and>
   (let o1 = viewStory noFaults 10 1 ''1'' demoStore;
        s2 = viewStoryRepeat [(noFaults, 20), (noFaults, 30)] 1 ''1'' (snd o1)
    in fst o1 = Inr \<lparr> status = 200, message = Some ''Story viewed'', payload = NoData \<rparr> \<and>
       map viewsCount (stories s2) = [1] \<and> map viewerId (storyViews s2) = [1] \<and>
       storyViewsUnique s2)"
proof -
  have p: "parseInt ''1'' = Num 1" by code_simp
  have st: "story_findUnique demoStore 1 = Some (hd (stories demoStore))" by code_simp
  have u: "userExists demoStore 1" by code_simp
  have n: "storyView_findUnique demoStore 1 1 = None" by code_simp
  have uq: "storyViewsUnique demoStore" by code_simp
  have a: "10 \<le> expiresAt (hd (stories demoStore))" by code_simp
  have f: "\<not> noFaults 0" "\<not> noFaults 1" by (simp_all add: noFaults_def)
  define o1 where "o1 = viewStory noFaults 10 1 ''1'' demoStore"
  define s2 where "s2 = viewStoryRepeat [(noFaults, 20), (noFaults, 30)] 1 ''1'' (snd o1)"
  have c1: "viewStory noFaults 10 1 ''1'' demoStore = (fst o1, snd o1)"
    by (simp add: o1_def)
  have e: "map viewsCount (stories (viewStoryRepeat [(noFaults, 20), (noFaults, 30)] 1 ''1''
                (snd (viewStory noFaults 10 1 ''1'' demoStore)))) = [1] \<and>
           map viewerId (storyViews (viewStoryRepeat [(noFaults, 20), (noFaults, 30)] 1 ''1''
                (snd (viewStory noFaults 10 1 ''1'' demoStore)))) = [1]"
    by code_simp
  from viewStory_counts_once[OF p st u n uq a f c1 s2_def[symmetric]] p st u n uq a e
  show ?thesis by (simp add: o1_def s2_def Let_def)
qed

subsection \<open>Atomic counter updates\<close>

text \<open>
  The handlers that write a child row and its counter inside one
  \<^verbatim>\<open>prisma.$transaction\<close> (reactions, comments; follow and unfollow above) keep
  the counters equal to the row counts whatever the database does to any of their
  writes.
\<close>

lemma jot_update_Inr:
  "jot_update i f s = Inr s' \<Longrightarrow> s' = s\<lparr>jots := map (\<lambda>j. if jot_id j = i then f j else j) (jots s)\<rparr>"
  by (auto simp: jot_update_def split: if_splits)

lemma addReactionTransaction_consistent:
  assumes c: "jotCountersConsistent s" and t: "addReactionTransaction jotId uid rt s = Inr s'"
  shows "jotCountersConsistent s'"
proof -
  from t obtain s1 where 1: "jotReaction_create jotId uid rt s = Inr s1"
    and 2: "jot_update jotId (\<lambda>j. j\<lparr>reactionsCount := reactionsCount j + 1\<rparr>) s1 = Inr s'"
    by (auto simp: addReactionTransaction_def split: sum.splits)
  from 1 have e1: "s1 = s\<lparr>jotReactions := jotReactions s @
             [\<lparr>reaction_id = freshId (map reaction_id (jotReactions s)), reaction_jotId = jotId,
               reaction_userId = uid, reaction_type = rt\<rparr>]\<rparr>"
    by (auto simp: jotReaction_create_def split: if_splits)
  note e2 = jot_update_Inr[OF 2]
  show ?thesis
    using c freshId_notin[of "map reaction_id (jotReactions s)"]
    unfolding jotCountersConsistent_def e2 e1
    by (auto simp: list_all_iff reactionsOf_def commentsOf_def)
qed

lemma removeReactionTransaction_consistent:
  assumes c: "jotCountersConsistent s" and r: "jotReaction_findFirst s jotId uid = Some row"
    and t: "removeReactionTransaction (reaction_id row) jotId s = Inr s'"
  shows "jotCountersConsistent s'"
proof -
  from t obtain s1 where 1: "jotReaction_delete (reaction_id row) s = Inr s1"
    and 2: "jot_update jotId (\<lambda>j. j\<lparr>reactionsCount := reactionsCount j - 1\<rparr>) s1 = Inr s'"
    by (auto simp: removeReactionTransaction_def split: sum.splits)
  from 1 have e1: "s1 = s\<lparr>jotReactions := filter (\<lambda>r. reaction_id r \<noteq> reaction_id row) (jotReactions s)\<rparr>"
    by (auto simp: jotReaction_delete_def split: if_splits)
  note e2 = jot_update_Inr[OF 2]
  from r have rin: "row \<in> set (jotReactions s)" and rj: "reaction_jotId row = jotId"
    by (auto simp: jotReaction_findFirst_def dest: find_SomeD)
  have dist: "distinct (map reaction_id (jotReactions s))" using c by (simp add: jotCountersConsistent_def)
  have cnt: "reactionsOf s' i = reactionsOf s i - (if i = jotId then 1 else 0)" for i
    unfolding reactionsOf_def e2 e1
    using length_filter_remove_one[OF dist rin, of "\<lambda>r. reaction_jotId r = i"] rj by auto
  have cnt2: "commentsOf s' i = commentsOf s i" for i
    unfolding commentsOf_def e2 e1 by simp
  have "distinct (map reaction_id (jotReactions s'))" "distinct (map comment_id (jotComments s'))"
    using c unfolding jotCountersConsistent_def e2 e1 by (simp_all add: distinct_map_filter)
  moreover have "list_all (\<lambda>j. reactionsCount j = reactionsOf s' (jot_id j) \<and>
                    commentsCount j = commentsOf s' (jot_id j)) (jots s')"
    using c unfolding jotCountersConsistent_def cnt cnt2
    by (auto simp: list_all_iff e2 e1)
  ultimately show ?thesis by (simp add: jotCountersConsistent_def)
qed

lemma addCommentTransaction_consistent:
  assumes c: "jotCountersConsistent s" and t: "addCommentTransaction jotId uid txt s = Inr s'"
  shows "jotCountersConsistent s'"
proof -
  from t obtain s1 where 1: "jotComment_create jotId uid txt s = Inr s1"
    and 2: "jot_update jotId (\<lambda>j. j\<lparr>commentsCount := commentsCount j + 1\<rparr>) s1 = Inr s'"
    by (auto simp: addCommentTransaction_def split: sum.splits)
  from 1 have e1: "s1 = s\<lparr>jotComments := jotComments s @ [jotComment_row s jotId uid txt]\<rparr>"
    by (auto simp: jotComment_create_def split: if_splits)
  note e2 = jot_update_Inr[OF 2]
  show ?thesis
    using c freshId_notin[of "map comment_id (jotComments s)"]
    unfolding jotCountersConsistent_def e2 e1
    by (auto simp: list_all_iff jotComment_row_def reactionsOf_def commentsOf_def)
qed

lemma deleteCommentTransaction_consistent:
  assumes c: "jotCountersConsistent s" and r: "jotComment_findUnique s cid = Some row"
    and t: "deleteCommentTransaction cid (comment_jotId row) s = Inr s'"
  shows "jotCountersConsistent s'"
proof -
  from t obtain s1 where 1: "jotComment_delete cid s = Inr s1"
    and 2: "jot_update (comment_jotId row) (\<lambda>j. j\<lparr>commentsCount := commentsCount j - 1\<rparr>) s1 = Inr s'"
    by (auto simp: deleteCommentTransaction_def split: sum.splits)
  from r have rin: "row \<in> set (jotComments s)" and ri: "comment_id row = cid"
    by (auto simp: jotComment_findUnique_def dest: find_SomeD)
  from 1 have e1: "s1 = s\<lparr>jotComments := filter (\<lambda>c. comment_id c \<noteq> comment_id row) (jotComments s)\<rparr>"
    by (auto simp: jotComment_delete_def ri split: if_splits)
  note e2 = jot_update_Inr[OF 2]
  have dist: "distinct (map comment_id (jotComments s))" using c by (simp add: jotCountersConsistent_def)
  have cnt: "commentsOf s' i = commentsOf s i - (if i = comment_jotId row then 1 else 0)" for i
    unfolding commentsOf_def e2 e1
    using length_filter_remove_one[OF dist rin, of "\<lambda>c. comment_jotId c = i"] by auto
  have cnt2: "reactionsOf s' i = reactionsOf s i" for i
    unfolding reactionsOf_def e2 e1 by simp
  have "distinct (map reaction_id (jotReactions s'))" "distinct (map comment_id (jotComments s'))"
    using c unfolding jotCountersConsistent_def e2 e1 by (simp_all add: distinct_map_filter)
  moreover have "list_all (\<lambda>j. reactionsCount j = reactionsOf s' (jot_id j) \<and>
                    commentsCount j = commentsOf s' (jot_id j)) (jots s')"
    using c unfolding jotCountersConsistent_def cnt cnt2
    by (auto simp: list_all_iff e2 e1)
  ultimately show ?thesis by (simp add: jotCountersConsistent_def)
qed

lemma jotCountersConsistent_cong:
  "jots s' = jots s \<Longrightarrow> jotReactions s' = jotReactions s \<Longrightarrow> jotComments s' = jotComments s \<Longrightarrow>
   jotCountersConsistent s' = jotCountersConsistent s"
  by (simp add: jotCountersConsistent_def reactionsOf_def commentsOf_def)

lemma notification_create_jotConsistent:
  "notification_create n s = Inr s' \<Longrightarrow> jotCountersConsistent s \<Longrightarrow> jotCountersConsistent s'"
  using jotCountersConsistent_cong[of s' s] by (auto dest: notification_create_frame)

lemma toggleReaction_consistent:
  assumes "jotCountersConsistent s" "toggleReaction flt c p a s = (r, s')"
  shows "jotCountersConsistent s'"
  using assms unfolding toggleReaction_def dbWrite_def Let_def
  by (auto split: jsnum.splits option.splits sum.splits if_splits
      intro: notification_create_jotConsistent addReactionTransaction_consistent
             removeReactionTransaction_consistent)

lemma addComment_consistent:
  assumes "jotCountersConsistent s" "addComment flt c p a s = (r, s')"
  shows "jotCountersConsistent s'"
  using assms unfolding addComment_def dbWrite_def Let_def
  by (auto split: jsnum.splits option.splits sum.splits if_splits
      intro: notification_create_jotConsistent addCommentTransaction_consistent)

lemma deleteComment_consistent:
  assumes "jotCountersConsistent s" "deleteComment flt c p s = (r, s')"
  shows "jotCountersConsistent s'"
  using assms unfolding deleteComment_def dbWrite_def
  by (auto split: jsnum.splits option.splits sum.splits if_splits
      intro: deleteCommentTransaction_consistent)

text \<open>
  C2. \<^verbatim>\<open>viewStory\<close> writes the StoryView row and increments \<^verbatim>\<open>viewsCount\<close> in
  two separate awaited statements, outside any transaction. When the database
  executes the first and fails the second, the handler answers with the failure and
  the store keeps the StoryView row while \<^verbatim>\<open>viewsCount\<close> is unchanged: the
  counter no longer equals the number of view rows.
\<close>

theorem viewStory_partial_write:
  "(let out = viewStory (\<lambda>k. k = 1) 10 1 ''1'' demoStore
    in viewCountersConsistent demoStore \<and>
       fst out = Inl DatabaseFailure \<and>
       map (\<lambda>v. (view_storyId v, viewerId v)) (storyViews (snd out)) = [(1, 1)] \<and>
       map viewsCount (stories (snd out)) = [0] \<and>
       \<not> viewCountersConsistent (snd out))"
  by code_simp

subsection \<open>Story expiration\<close>

lemma viewStory_expired_rejected:
  assumes "parseInt idParam = Num storyId" "story_findUnique s storyId = Some st"
    "expiresAt st < now"
  shows "viewStory flt now userId idParam s = (Inl (ValidationError ''This story has expired''), s)"
  using assms by (simp add: viewStory_def)

lemma activeStories_not_expired:
  "st \<in> set (activeStories now userId s) \<Longrightarrow> now < expiresAt st \<and> st \<in> set (stories s)"
  by (auto simp: activeStories_def Let_def)

lemma getActiveStories_readonly: "snd (getActiveStories now userId s) = s"
  by (simp add: getActiveStories_def)

text \<open>
  C7. At the instant \<open>now = expiresAt\<close> the story is not active (the listing, which
  filters on \<^verbatim>\<open>expiresAt > now\<close>, leaves it out, while it lists it one millisecond
  earlier), yet \<^verbatim>\<open>viewStory\<close>, which rejects only when \<^verbatim>\<open>now > expiresAt\<close>,
  accepts the view, creates the StoryView row and increments \<^verbatim>\<open>viewsCount\<close>.
\<close>

theorem viewStory_at_expiry_accepted:
  "(let s0 = snd (followUser noFaults 1 ''2'' demoStore);
        out = viewStory noFaults 1000 1 ''1'' s0
    in map expiresAt (stories s0) = [1000] \<and>
       map story_id (activeStories 999 1 s0) = [1] \<and>
       activeStories 1000 1 s0 = [] \<and>
       fst out = Inr \<lparr> status = 200, message = Some ''Story viewed'', payload = NoData \<rparr> \<and>
       map viewsCount (stories (snd out)) = [1] \<and>
       map viewerId (storyViews (snd out)) = [1])"
  by code_simp

subsection \<open>Tag cap of diary entries\<close>

text \<open>
  C5 as stated fails: the tag cap is checked after the title, the content, the diary
  id, the diary's existence and its ownership. A request with six tag names from a
  caller who does not own the diary is answered with AuthorizationError, not
  MaxTagsError (the store is unchanged all the same).
\<close>

theorem createDiaryEntry_tags_counterexample:
  "length (parseTagNames (Some (TagsString ''a,b,c,d,e,f''))) > 5 \<and>
   createDiaryEntry noFaults (\<lambda>f d. None) 2
      \<lparr> body_title = Some ''T'', body_content = Some ''C'', body_diaryId = Some ''1'',
        body_entryTags = Some (TagsString ''a,b,c,d,e,f'') \<rparr> None demoStore
     = (Inl (AuthorizationError ''You don't have permission to add entries to this diary''), demoStore)"
  by code_simp

text \<open>
  C5, amended. Every create-diary-entry request whose tag input, after trimming,
  lower-casing and dropping empties, has more than 5 names fails and leaves the
  store unchanged (no DiaryEntry, Tag or DiaryEntryTag row is created); and when the
  request passes the checks made before the tags are
  parsed (title and content not blank, a diary id that parses, the diary exists and
  belongs to the caller) the error is MaxTagsError.
\<close>

theorem createDiaryEntry_max_tags:
  assumes "length (parseTagNames (body_entryTags body)) > 5"
  shows "(\<exists>e. createDiaryEntry flt cloud userId body file s = (Inl e, s)) \<and>
         (truthy (body_title body) \<and> trim (strOf (body_title body)) \<noteq> [] \<and>
          truthy (body_content body) \<and> trim (strOf (body_content body)) \<noteq> [] \<and>
          truthy (body_diaryId body) \<and>
          (\<exists>diaryId d. parseInt (strOf (body_diaryId body)) = Num diaryId \<and>
               diary_findUnique s diaryId = Some d \<and> diary_userId d = userId) \<longrightarrow>
          createDiaryEntry flt cloud userId body file s =
            (Inl (MaxTagsError ''Maximum 5 tags allowed per entry''), s))"
proof -
  have t: "tagsTruthy (body_entryTags body)"
    using assms by (auto simp: parseTagNames_def split: if_splits)
  have a: "\<exists>e. createDiaryEntry flt cloud userId body file s = (Inl e, s)"
    using assms t
    by (auto simp: createDiaryEntry_def MAX_TAGS_def Let_def split: jsnum.splits option.splits)
  have b: "createDiaryEntry flt cloud userId body file s =
            (Inl (MaxTagsError ''Maximum 5 tags allowed per entry''), s)"
    if "truthy (body_title body)" "trim (strOf (body_title body)) \<noteq> []"
       "truthy (body_content body)" "trim (strOf (body_content body)) \<noteq> []"
       "truthy (body_diaryId body)" "parseInt (strOf (body_diaryId body)) = Num diaryId"
       "diary_findUnique s diaryId = Some d" "diary_userId d = userId" for diaryId d
    using that assms t by (simp add: createDiaryEntry_def MAX_TAGS_def Let_def)
  from a b show ?thesis by blast
qed

theorem createDiaryEntry_max_tags_witness:
  "length (parseTagNames (Some (TagsString ''Work, life ,, A,b,c,d''))) > 5 \<and>
   createDiaryEntry noFaults (\<lambda>f d. None) 1
      \<lparr> body_title = Some ''T'', body_content = Some ''C'', body_diaryId = Some ''1'',
        body_entryTags = Some (TagsString ''Work, life ,, A,b,c,d'') \<rparr> None demoStore
     = (Inl (MaxTagsError ''Maximum 5 tags allowed per entry''), demoStore)"
proof -
  define body where "body = \<lparr> body_title = Some ''T'', body_content = Some ''C'', body_diaryId = Some ''1'',
        body_entryTags = Some (TagsString ''Work, life ,, A,b,c,d'') \<rparr>"
  have h: "length (parseTagNames (body_entryTags body)) > 5"
    unfolding body_def by code_simp
  have g: "truthy (body_title body) \<and> trim (strOf (body_title body)) \<noteq> [] \<and>
          truthy (body_content body) \<and> trim (strOf (body_content body)) \<noteq> [] \<and>
          truthy (body_diaryId body) \<and>
          (parseInt (strOf (body_diaryId body)) = Num 1 \<and>
               diary_findUnique demoStore 1 = Some (hd (diaries demoStore)) \<and>
               diary_userId (hd (diaries demoStore)) = 1)"
    unfolding body_def by code_simp
  from createDiaryEntry_max_tags[OF h, of noFaults "\<lambda>f d. None" 1 None demoStore] g h
  show ?thesis unfolding body_def by auto
qed

text \<open>
  A title that is only white space, here a no-break space, is blank: the request
  ends at the title check whatever its tags are.
\<close>

lemma createDiaryEntry_blank_title:
  "createDiaryEntry noFaults (\<lambda>f d. None) 1
      \<lparr> body_title = Some [CHR 0xA0], body_content = Some ''C'', body_diaryId = Some ''1'',
        body_entryTags = Some (TagsString ''a,b,c,d,e,f'') \<rparr> None demoStore
     = (Inl (ValidationError ''Entry title is required''), demoStore)"
  by code_simp

subsection \<open>Diary visibility\<close>

text \<open>
  The visibility check of both handlers, for every caller and every diary of the
  store requested by its id: a private diary and a caller who is not its owner give
  AuthorizationError, which the error boundary answers with 403; a public diary
  passes the check for any caller, and then \<^verbatim>\<open>getDiaryById\<close> answers 200, and
  \<^verbatim>\<open>getDiaryEntries\<close> answers 200 when its \<^verbatim>\<open>take\<close> and \<^verbatim>\<open>skip\<close> are numbers.
\<close>

lemma diary_visibility_check:
  assumes "parseInt idParam = Num diaryId" "diary_findUnique s diaryId = Some d"
  shows "(\<not> isPublic d \<and> diary_userId d \<noteq> caller \<longrightarrow>
            (\<exists>m. getDiaryById caller idParam s = (Inl (AuthorizationError m), s) \<and>
                 statusCode (AuthorizationError m) = 403) \<and>
            (\<exists>m. getDiaryEntries caller idParam pageArg limitArg s = (Inl (AuthorizationError m), s) \<and>
                 statusCode (AuthorizationError m) = 403)) \<and>
         (isPublic d \<longrightarrow>
            (\<exists>r. getDiaryById caller idParam s = (Inr r, s) \<and> status r = 200) \<and>
            (limit (parsePagination pageArg limitArg) \<noteq> NaN \<and>
             offset (parsePagination pageArg limitArg) \<noteq> NaN \<longrightarrow>
               (\<exists>r. getDiaryEntries caller idParam pageArg limitArg s = (Inr r, s) \<and> status r = 200)))"
  using assms
  by (auto simp: getDiaryById_def getDiaryEntries_def Let_def findManyPaged_def split: jsnum.splits)

text \<open>
  C6. Diary 2 of the small store is public. An authenticated caller who is not its
  owner requests its entries with \<^verbatim>\<open>?page=abc\<close>: the visibility check passes,
  \<^verbatim>\<open>parsePagination\<close> yields \<^verbatim>\<open>skip = NaN\<close>, the listing query is rejected and
  the request ends with that error, which the error boundary answers with 500, not
  200. The same caller gets 200 without the parameter, and AuthorizationError on the
  private diary 1 from both handlers.
\<close>

theorem getDiaryEntries_public_unparsed_page:
  "diary_findUnique demoStore 2 = Some (last (diaries demoStore)) \<and>
   isPublic (last (diaries demoStore)) \<and> diary_userId (last (diaries demoStore)) = 1 \<and>
   getDiaryEntries 2 ''2'' (Some ''abc'') None demoStore =
     (Inl PrismaClientValidationError, demoStore) \<and>
   statusCode PrismaClientValidationError = 500 \<and>
   getDiaryEntries 2 ''2'' None None demoStore =
     (Inr \<lparr> status = 200, message = None, payload = EntriesData [] False \<rparr>, demoStore) \<and>
   getDiaryById 2 ''1'' demoStore =
     (Inl (AuthorizationError ''You don't have permission to view this diary''), demoStore) \<and>
   getDiaryEntries 2 ''1'' None None demoStore =
     (Inl (AuthorizationError ''You don't have permission to view these entries''), demoStore)"
  by code_simp

subsection \<open>Pagination\<close>

lemma showInt_1_20: "showInt 1 = ''1''" "showInt 20 = ''20''"
  by (simp_all add: showInt_def digitChar_def)

lemma parsePagination_numeric:
  assumes "parseInt (orDefault pageArg ''1'') = Num a" "parseInt (orDefault limitArg ''20'') = Num b"
  shows "parsePagination pageArg limitArg =
           \<lparr> page = Num (max 1 a), limit = Num (min 100 (max 1 b)),
             offset = Num ((max 1 a - 1) * min 100 (max 1 b)) \<rparr>"
  using assms by (simp add: parsePagination_def showInt_1_20 Let_def)

lemma parsePagination_bounds:
  assumes "parseInt (orDefault pageArg ''1'') = Num a" "parseInt (orDefault limitArg ''20'') = Num b"
  shows "\<exists>p l. page (parsePagination pageArg limitArg) = Num p \<and> 1 \<le> p \<and>
               limit (parsePagination pageArg limitArg) = Num l \<and> 1 \<le> l \<and> l \<le> 100 \<and>
               offset (parsePagination pageArg limitArg) = Num ((p - 1) * l)"
  by (simp add: parsePagination_numeric[OF assms])

lemma parsePagination_default:
  "parsePagination None None = \<lparr> page = Num 1, limit = Num 20, offset = Num 0 \<rparr>"
  "parsePagination (Some []) (Some []) = \<lparr> page = Num 1, limit = Num 20, offset = Num 0 \<rparr>"
  by (simp_all add: parsePagination_def showInt_1_20 orDefault_def parseInt_def isWhiteSpace_def
      isRadixDigit_def digitValue_def digitsToInt_def)

lemma getJotsFeed_hasMore:
  assumes "getJotsFeed callerId pageArg limitArg s = (Inr r, s')" "payload r = JotsData js h"
  shows "h \<longleftrightarrow> Num (int (length js)) = limit (parsePagination pageArg limitArg)"
  using assms by (auto simp: getJotsFeed_def Let_def split: sum.splits)

lemma getDiaryEntries_hasMore:
  assumes "getDiaryEntries userId idParam pageArg limitArg s = (Inr r, s')"
    "payload r = EntriesData es h" "parseInt idParam = Num diaryId"
  shows "\<exists>k. offset (parsePagination pageArg limitArg) = Num k \<and>
          (h \<longleftrightarrow> k + int (length es) < int (length (filter (\<lambda>e. entry_diaryId e = diaryId) (diaryEntries s))))"
  using assms
  by (auto simp: getDiaryEntries_def Let_def findManyPaged_def
      split: sum.splits jsnum.splits option.splits if_splits)

text \<open>
  C8. For \<^verbatim>\<open>page\<close> or \<^verbatim>\<open>limit\<close> strings that do not start with a number,
  \<^verbatim>\<open>parseInt\<close> gives \<^verbatim>\<open>NaN\<close> and \<^verbatim>\<open>Math.max(1, NaN)\<close> is \<^verbatim>\<open>NaN\<close>: the
  effective page is not at least 1, the effective limit is not between 1 and 100,
  and the offset is \<^verbatim>\<open>NaN\<close>. (For inputs that parse, and for absent or empty
  ones, the bounds, the defaults, the offset and both \<^verbatim>\<open>hasMore\<close> formulas are as
  claimed: \<open>parsePagination_bounds\<close>, \<open>parsePagination_default\<close>,
  \<open>getJotsFeed_hasMore\<close>, \<open>getDiaryEntries_hasMore\<close>.)
\<close>

theorem parsePagination_not_a_number:
  "parsePagination (Some ''abc'') (Some ''ten'') = \<lparr> page = NaN, limit = NaN, offset = NaN \<rparr> \<and>
   parsePagination (Some ''abc'') None = \<lparr> page = NaN, limit = Num 20, offset = NaN \<rparr>"
  by code_simp

subsection \<open>Media uploads\<close>

lemma register_upload_failure:
  assumes "\<not> success (uploadImage cloud f ''user_profiles'')"
  shows "\<exists>e. register flt cr cloud body (Some f) s = (Inl e, s)"
  using assms unfolding register_def Let_def
  by (simp split: option.splits)

lemma updateProfilePicture_upload_failure:
  assumes "\<not> success (uploadImage cloud f ''user_profiles'')"
  shows "\<exists>e. updateProfilePicture flt cloud c (Some f) s = (Inl e, s)"
  using assms unfolding updateProfilePicture_def Let_def
  by (simp split: option.splits)

lemma createJot_upload_failure:
  assumes "\<not> success (uploadImage cloud f ''jots'')"
  shows "\<exists>e. createJot flt cloud c txt (Some f) s = (Inl e, s)"
  using assms unfolding createJot_def Let_def
  by simp

lemma createStory_upload_failure:
  assumes "\<not> success (uploadImage cloud f ''stories'')"
  shows "\<exists>e. createStory flt cloud now c cap (Some f) s = (Inl e, s)"
  using assms unfolding createStory_def Let_def
  by simp

lemma linkTags_entries: "linkTags flt k u e ns s = (r, s') \<Longrightarrow> diaryEntries s' = diaryEntries s"
proof (induction ns arbitrary: k s)
  case Nil then show ?case by simp
next
  case (Cons n ns)
  then show ?case
    by (auto simp: dbWrite_def tag_create_def diaryEntryTag_create_def
        split: option.splits sum.splits if_splits prod.splits)
qed

lemma createDiaryEntry_failed_upload_no_url:
  assumes "\<not> success (uploadImage cloud f ''diary-entries'')"
    and "createDiaryEntry flt cloud c body (Some f) s = (r, s')"
  shows "diaryEntries s' = diaryEntries s \<or>
         (\<exists>e. diaryEntries s' = diaryEntries s @ [e] \<and> coverImage e = None)"
  using assms unfolding createDiaryEntry_def Let_def dbWrite_def diaryEntry_create_def
  by (auto split: if_splits jsnum.splits option.splits sum.splits prod.splits
      simp: diaryEntry_row_def dest!: linkTags_entries)

text \<open>
  C9. \<^verbatim>\<open>createDiaryEntry\<close> with a cover image whose upload fails does not abort:
  it answers 201 and commits the entry, with \<^verbatim>\<open>coverImage\<close> null. (Registration,
  profile-picture update, jot creation and story creation do abort with the store
  unchanged, and no flow commits a URL that failed to upload:
  \<open>register_upload_failure\<close>, \<open>updateProfilePicture_upload_failure\<close>,
  \<open>createJot_upload_failure\<close>, \<open>createStory_upload_failure\<close>,
  \<open>createDiaryEntry_failed_upload_no_url\<close>.)
\<close>

theorem createDiaryEntry_ignores_failed_upload:
  "(let cloud = (\<lambda>f d. None);
        out = createDiaryEntry noFaults cloud 1
                \<lparr> body_title = Some ''Day one'', body_content = Some ''Text'',
                  body_diaryId = Some ''1'', body_entryTags = None \<rparr> (Some demoFile) demoStore
    in \<not> success (uploadImage cloud demoFile ''diary-entries'') \<and>
       (case fst out of Inl e \<Rightarrow> False | Inr r \<Rightarrow> status r = 201) \<and>
       diaryEntries demoStore = [] \<and>
       map (\<lambda>e. (entry_title e, coverImage e)) (diaryEntries (snd out)) = [(''Day one'', None)])"
  by code_simp

theorem createDiaryEntry_ignores_failed_upload_witness:
  "length (diaryEntries (snd (createDiaryEntry noFaults (\<lambda>f d. None) 1
       \<lparr> body_title = Some ''Day one'', body_content = Some ''Text'',
         body_diaryId = Some ''1'', body_entryTags = None \<rparr> (Some demoFile) demoStore))) = 1"
proof -
  have "map (\<lambda>e. (entry_title e, coverImage e))
          (diaryEntries (snd (createDiaryEntry noFaults (\<lambda>f d. None) 1
             \<lparr> body_title = Some ''Day one'', body_content = Some ''Text'',
               body_diaryId = Some ''1'', body_entryTags = None \<rparr> (Some demoFile) demoStore)))
        = [(''Day one'', None)]"
    using createDiaryEntry_ignores_failed_upload by (simp add: Let_def)
  then have "length (map (\<lambda>e. (entry_title e, coverImage e))
          (diaryEntries (snd (createDiaryEntry noFaults (\<lambda>f d. None) 1
             \<lparr> body_title = Some ''Day one'', body_content = Some ''Text'',
               body_diaryId = Some ''1'', body_entryTags = None \<rparr> (Some demoFile) demoStore)))) = 1"
    by (simp only: list.size(3,4))
  then show ?thesis by (simp only: length_map)
qed

subsection \<open>Password removal\<close>

lemma sanitizeUser_no_password: "''password'' \<notin> set (map fst (sanitizeUser obj))"
  by (induction obj) (auto simp: sanitizeUser_def)

lemma replyUser_sanitized:
  "payload r = AuthData (sanitizeUser obj) tok \<or> payload r = UserData (sanitizeUser obj) \<Longrightarrow>
   \<exists>obj'. replyUser r = Some obj' \<and> ''password'' \<notin> set (map fst obj')"
  using sanitizeUser_no_password[of obj] by auto

lemma register_payload:
  "register flt cr cloud body f s = (Inr r, s') \<Longrightarrow>
     \<exists>u tok. payload r = AuthData (sanitizeUser (userObject u)) tok"
  unfolding register_def Let_def
  by (simp split: if_splits option.splits sum.splits) force+

lemma login_payload:
  "login cr body s = (Inr r, s') \<Longrightarrow>
     \<exists>u tok. payload r = AuthData (sanitizeUser (userObject u)) tok"
  unfolding login_def
  by (simp split: if_splits option.splits) force+

lemma getCurrentUser_payload:
  "getCurrentUser c s = (Inr r, s') \<Longrightarrow> \<exists>u. payload r = UserData (sanitizeUser (userObject u))"
  unfolding getCurrentUser_def
  by (simp split: option.splits) force+

lemma updateUser_payload:
  "updateUser flt c body s = (Inr r, s') \<Longrightarrow> \<exists>u. payload r = UserData (sanitizeUser (userObject u))"
  unfolding updateUser_def
  by (simp split: if_splits option.splits sum.splits) force+

lemma updateProfilePicture_payload:
  "updateProfilePicture flt cloud c f s = (Inr r, s') \<Longrightarrow>
     \<exists>u. payload r = UserData (sanitizeUser (userObject u))"
  unfolding updateProfilePicture_def Let_def
  by (simp split: if_splits option.splits sum.splits) force+

text \<open>
  C10. Every successful reply of register, login, get current user, update user and
  update profile picture carries a user object, and that object has no
  \<^verbatim>\<open>password\<close> key, for every request, every store and every behaviour of the
  database, the media store and the crypto libraries.
\<close>

theorem user_replies_omit_password:
  assumes "runUserEndpoint ep s = (Inr r, s')"
  shows "\<exists>obj. replyUser r = Some obj \<and> ''password'' \<notin> set (map fst obj)"
proof -
  have "\<exists>u. (\<exists>tok. payload r = AuthData (sanitizeUser (userObject u)) tok) \<or>
             payload r = UserData (sanitizeUser (userObject u))"
  proof (cases ep)
    case (Register flt cr cloud body f)
    with assms register_payload[of flt cr cloud body f s r s'] show ?thesis by auto
  next
    case (Login cr body)
    with assms login_payload[of cr body s r s'] show ?thesis by auto
  next
    case (GetCurrentUser c)
    with assms getCurrentUser_payload[of c s r s'] show ?thesis by auto
  next
    case (UpdateUser flt c body)
    with assms updateUser_payload[of flt c body s r s'] show ?thesis by auto
  next
    case (UpdateProfilePicture flt cloud c f)
    with assms updateProfilePicture_payload[of flt cloud c f s r s'] show ?thesis by auto
  qed
  then obtain u where "(\<exists>tok. payload r = AuthData (sanitizeUser (userObject u)) tok) \<or>
             payload r = UserData (sanitizeUser (userObject u))" ..
  then show ?thesis using replyUser_sanitized[of r "userObject u"] by auto
qed

theorem user_replies_omit_password_witness:
  "runUserEndpoint (GetCurrentUser 1) demoStore =
     (Inr \<lparr> status = 200, message = None, payload = UserData (sanitizeUser (userObject ann)) \<rparr>, demoStore) \<and>
   ''password'' \<in> set (map fst (userObject ann)) \<and>
   replyUser \<lparr> status = 200, message = None, payload = UserData (sanitizeUser (userObject ann)) \<rparr>
     = Some (sanitizeUser (userObject ann)) \<and>
   ''password'' \<notin> set (map fst (sanitizeUser (userObject ann)))"
proof -
  have h: "runUserEndpoint (GetCurrentUser 1) demoStore =
     (Inr \<lparr> status = 200, message = None, payload = UserData (sanitizeUser (userObject ann)) \<rparr>, demoStore)"
    by code_simp
  have p: "''password'' \<in> set (map fst (userObject ann))" by code_simp
  from user_replies_omit_password[OF h] h p show ?thesis by simp
qed

end
